theory Spec2Isabelle
  imports Complex_Main
begin

section \<open>GridSense stream processing: a shallow embedding\<close>

text \<open>
  The theory embeds \<^verbatim>\<open>services/pathway/config.py\<close>, \<^verbatim>\<open>utils.py\<close> and
  \<^verbatim>\<open>processor.py\<close>. A Python float is the real number it denotes; there is no NaN
  and no infinity. The products, quotients and roundings that the Python code itself
  computes are rounded to binary64 as the interpreter rounds them, and a decimal
  literal of the code is the binary64 number nearest to it. The sums of the reducers
  belong to the dataflow engine, whose summation is not in the sources, and are exact.
  Python strings are byte lists in UTF-8, so the three pictographs of the alert texts
  are written as their bytes. A stream (a table of the dataflow library) is the list of
  its rows in arrival order.
\<close>

subsection \<open>Binary64 arithmetic\<close>

text \<open>
  Rounding to the nearest binary64 number, a tie going to the even significand. The
  binade of \<open>x\<close> is the exponent \<open>e\<close> with \<open>pow2 e \<le> |x| < pow2 (e + 1)\<close>, not below
  the exponent of the subnormal numbers, and the binary64 numbers of a binade are the
  multiples of \<open>pow2 (e - 52)\<close>. A result beyond the largest binary64 number would be
  an infinity and is outside the model.
\<close>

definition round_half_even :: "real \<Rightarrow> int" where
  "round_half_even x =
     (let f = \<lfloor>x\<rfloor>; d = x - of_int f
      in if d < 1 / 2 then f
         else if 1 / 2 < d then f + 1
         else if even f then f else f + 1)"

definition pow2 :: "int \<Rightarrow> real" where
  "pow2 e = (if 0 \<le> e then 2 ^ nat e else 1 / 2 ^ nat (- e))"

definition binade :: "real \<Rightarrow> int" where
  "binade x = max (- 1022) \<lfloor>log 2 \<bar>x\<bar>\<rfloor>"

definition to_double :: "real \<Rightarrow> real" where
  "to_double x =
     (if x = 0 then 0
      else let ulp = pow2 (binade x - 52)
           in of_int (round_half_even (x / ulp)) * ulp)"

definition float_mul :: "real \<Rightarrow> real \<Rightarrow> real" where
  \<comment> \<open>\<^verbatim>\<open>x * y\<close> of two floats\<close>
  "float_mul x y = to_double (x * y)"

definition float_div :: "real \<Rightarrow> real \<Rightarrow> real" where
  \<comment> \<open>\<^verbatim>\<open>x / y\<close> of two floats, \<open>y\<close> not zero\<close>
  "float_div x y = to_double (x / y)"

subsection \<open>Configuration (config.py)\<close>

definition HIGH_CURRENT_THRESHOLD :: real where
  "HIGH_CURRENT_THRESHOLD = 100"

definition INTERNAL_POLL_INTERVAL :: real where
  "INTERNAL_POLL_INTERVAL = to_double 0.1"

definition EXTERNAL_POLL_INTERVAL :: real where
  "EXTERNAL_POLL_INTERVAL = 15"

subsection \<open>Python's number formatting and rounding\<close>

text \<open>
  \<^verbatim>\<open>round(x, n)\<close> and the format specification \<^verbatim>\<open>.nf\<close> round the value of the float
  to \<open>n\<close> decimals, a tie going to the even neighbour; \<^verbatim>\<open>round\<close> returns the float
  nearest to that decimal.
\<close>

definition py_round :: "real \<Rightarrow> nat \<Rightarrow> real" where
  "py_round x ndigits =
     to_double (of_int (round_half_even (x * 10 ^ ndigits)) / 10 ^ ndigits)"

definition digit_char :: "nat \<Rightarrow> char" where
  "digit_char d = ''0123456789'' ! d"

fun show_nat :: "nat \<Rightarrow> string" where
  "show_nat n =
     (if n < 10 then [digit_char n] else show_nat (n div 10) @ [digit_char (n mod 10)])"

declare show_nat.simps [simp del]

definition pad_zeros :: "nat \<Rightarrow> string \<Rightarrow> string" where
  "pad_zeros w s = replicate (w - length s) CHR ''0'' @ s"

definition fmt_fixed :: "nat \<Rightarrow> real \<Rightarrow> string" where
  \<comment> \<open>\<^verbatim>\<open>f"{x:.pf}"\<close>\<close>
  "fmt_fixed p x =
     (let q = nat (round_half_even (\<bar>x\<bar> * 10 ^ p));
          whole = show_nat (q div 10 ^ p);
          frac = pad_zeros p (show_nat (q mod 10 ^ p))
      in (if x < 0 then ''-'' else '''') @ whole @ (if p = 0 then '''' else ''.'' @ frac))"

subsection \<open>Alert and recommendation texts (utils.py)\<close>

definition WARNING_SIGN :: string where
  \<comment> \<open>U+26A0 U+FE0F\<close>
  "WARNING_SIGN = [CHR 0xE2, CHR 0x9A, CHR 0xA0, CHR 0xEF, CHR 0xB8, CHR 0x8F]"

definition POLICE_LIGHT :: string where
  \<comment> \<open>U+1F6A8\<close>
  "POLICE_LIGHT = [CHR 0xF0, CHR 0x9F, CHR 0x9A, CHR 0xA8]"

definition HIGH_VOLTAGE_SIGN :: string where
  \<comment> \<open>U+26A1\<close>
  "HIGH_VOLTAGE_SIGN = [CHR 0xE2, CHR 0x9A, CHR 0xA1]"

definition get_anomaly_alert :: "real \<Rightarrow> string \<Rightarrow> string" where
  "get_anomaly_alert current status =
     (if status = ''starting'' \<and> current > HIGH_CURRENT_THRESHOLD
        then WARNING_SIGN @ '' MOTOR INRUSH: '' @ fmt_fixed 1 current @ ''A''
      else if status = ''fault''
        then POLICE_LIGHT @ '' FAULT DETECTED: '' @ fmt_fixed 1 current @ ''A''
      else if current > HIGH_CURRENT_THRESHOLD
        then HIGH_VOLTAGE_SIGN @ '' HIGH CURRENT: '' @ fmt_fixed 1 current @ ''A''
      else WARNING_SIGN @ '' ANOMALY: '' @ fmt_fixed 1 current @ ''A'')"

definition generate_llm_recommendation ::
  "string \<Rightarrow> string \<Rightarrow> real \<Rightarrow> real \<Rightarrow> real \<Rightarrow> string \<Rightarrow> real \<Rightarrow> string \<Rightarrow> real \<Rightarrow> real \<Rightarrow> string"
where
  "generate_llm_recommendation device_id device_type power' current carbon_intensity
       carbon_level electricity_price pricing_tier renewable_pct cost_per_hour =
     (if pricing_tier = ''HIGH'' \<and> power' > 500 then
        (let savings_per_hour = cost_per_hour
         in ''Grid Price is $'' @ fmt_fixed 3 electricity_price @ ''/kWh (High). ''
            @ ''Stopping '' @ device_id @ '' will save approx $''
            @ fmt_fixed 2 savings_per_hour @ ''/hour.'')
      else if pricing_tier = ''HIGH'' \<and> carbon_level = ''HIGH'' then
        (let savings_per_hour = cost_per_hour;
             carbon_per_hour = float_mul (float_div power' 1000) carbon_intensity
         in ''Peak pricing ($'' @ fmt_fixed 3 electricity_price @ ''/kWh) + High carbon (''
            @ fmt_fixed 0 carbon_intensity @ ''gCO2/kWh). ''
            @ ''Reducing '' @ device_id @ '' saves $'' @ fmt_fixed 2 savings_per_hour
            @ ''/hr and '' @ fmt_fixed 0 carbon_per_hour @ ''g CO2/hr.'')
      else if carbon_level = ''HIGH'' \<and> power' > 500 then
        (let carbon_per_hour = float_mul (float_div power' 1000) carbon_intensity
         in ''Carbon intensity is '' @ fmt_fixed 0 carbon_intensity @ ''gCO2/kWh (High). ''
            @ ''Deferring '' @ device_id @ '' avoids '' @ fmt_fixed 0 carbon_per_hour
            @ ''g CO2/hr.'')
      else if pricing_tier = ''LOW'' \<and> carbon_level = ''LOW'' then
        ''Optimal conditions: $'' @ fmt_fixed 3 electricity_price @ ''/kWh, ''
        @ fmt_fixed 0 renewable_pct @ ''% renewable. ''
        @ ''Good time to run '' @ device_id @ ''.''
      else if renewable_pct > 70 then
        ''Grid is '' @ fmt_fixed 0 renewable_pct @ ''% renewable (Clean energy!). ''
        @ device_id @ '' running on mostly clean power.''
      else
        device_id @ '' operating normally. ''
        @ ''Current cost: $'' @ fmt_fixed 2 cost_per_hour @ ''/hr at $''
        @ fmt_fixed 3 electricity_price @ ''/kWh.'')"

subsection \<open>Rows of the streams and views (processor.py)\<close>

record DeviceRow =
  dev_device_id :: string
  dev_device_type :: string
  dev_status :: string
  dev_voltage :: real
  dev_current :: real
  dev_power :: real
  dev_timestamp :: real

record GridRow =
  grid_carbon_intensity :: real
  grid_carbon_level :: string
  grid_electricity_price :: real
  grid_pricing_tier :: string
  grid_renewable_pct :: real
  grid_timestamp :: real

record AnomalyRow =
  anom_device_id :: string
  anom_device_type :: string
  anom_current :: real
  anom_power :: real
  anom_status :: string
  anom_alert :: string
  anom_timestamp :: real

record AggregateRow =
  agg_device_type :: string
  avg_current :: real
  max_current :: real
  avg_power :: real
  total_samples :: nat

record RecommendationRow =
  rec_device_id :: string
  rec_device_type :: string
  rec_current :: real
  rec_power :: real
  rec_carbon_intensity :: real
  rec_carbon_level :: string
  rec_pricing_tier :: string
  rec_renewable_pct :: real
  rec_electricity_price :: real
  rec_cost_per_hour :: real
  rec_recommendation :: string
  rec_timestamp :: real

subsection \<open>The anomaly pipeline\<close>

definition detect_anomalies :: "DeviceRow list \<Rightarrow> AnomalyRow list" where
  "detect_anomalies device_stream =
     map (\<lambda>this. \<lparr>anom_device_id = dev_device_id this,
                   anom_device_type = dev_device_type this,
                   anom_current = dev_current this,
                   anom_power = dev_power this,
                   anom_status = dev_status this,
                   anom_alert = get_anomaly_alert (dev_current this) (dev_status this),
                   anom_timestamp = dev_timestamp this\<rparr>)
       (filter (\<lambda>this. dev_current this > HIGH_CURRENT_THRESHOLD) device_stream)"

subsection \<open>The statistics pipeline\<close>

text \<open>The reducers of a group, which is never empty: a group exists once a row has its key.\<close>

definition reducers_avg :: "real list \<Rightarrow> real" where
  "reducers_avg xs = sum_list xs / real (length xs)"

definition reducers_max :: "real list \<Rightarrow> real" where
  "reducers_max xs = fold max (tl xs) (hd xs)"

definition reducers_count :: "'a list \<Rightarrow> nat" where
  "reducers_count xs = length xs"

definition compute_statistics :: "DeviceRow list \<Rightarrow> string \<Rightarrow> AggregateRow option" where
  \<comment> \<open>the grouped table, keyed by \<open>device_type\<close>\<close>
  "compute_statistics device_stream key =
     (let grp = filter (\<lambda>this. dev_device_type this = key) device_stream
      in if grp = [] then None
         else Some \<lparr>agg_device_type = key,
                    avg_current = reducers_avg (map dev_current grp),
                    max_current = reducers_max (map dev_current grp),
                    avg_power = reducers_avg (map dev_power grp),
                    total_samples = reducers_count grp\<rparr>)"

subsection \<open>The optimisation pipeline\<close>

definition asof_backward :: "real \<Rightarrow> GridRow list \<Rightarrow> GridRow option" where
  \<comment> \<open>\<^verbatim>\<open>asof_join\<close> with \<^verbatim>\<open>Direction.BACKWARD\<close>: the right row of the greatest
      timestamp at or before the left row's; among equal timestamps the later arrival\<close>
  "asof_backward t grid_stream =
     (case filter (\<lambda>g. grid_timestamp g \<le> t) grid_stream of
        [] \<Rightarrow> None
      | g # gs \<Rightarrow>
          Some (fold (\<lambda>h best. if grid_timestamp best \<le> grid_timestamp h then h else best) gs g))"

definition coalesce :: "'a option \<Rightarrow> 'a \<Rightarrow> 'a" where
  "coalesce v d = (case v of None \<Rightarrow> d | Some x \<Rightarrow> x)"

definition generate_recommendations :: "DeviceRow list \<Rightarrow> GridRow list \<Rightarrow> RecommendationRow list" where
  \<comment> \<open>\<^verbatim>\<open>JoinMode.LEFT\<close>: a device row with no match keeps its place, the right columns empty\<close>
  "generate_recommendations device_stream grid_stream =
     map (\<lambda>d.
        let right = asof_backward (dev_timestamp d) grid_stream
        in \<lparr>rec_device_id = dev_device_id d,
            rec_device_type = dev_device_type d,
            rec_current = dev_current d,
            rec_power = dev_power d,
            rec_carbon_intensity = coalesce (map_option grid_carbon_intensity right) 500.0,
            rec_carbon_level = coalesce (map_option grid_carbon_level right) ''MEDIUM'',
            rec_pricing_tier = coalesce (map_option grid_pricing_tier right) ''MEDIUM'',
            rec_renewable_pct = coalesce (map_option grid_renewable_pct right) 35.0,
            rec_electricity_price = coalesce (map_option grid_electricity_price right) (to_double 0.15),
            rec_cost_per_hour =
              (\<lambda>p price. py_round (float_mul (float_div p 1000) price) 4) (dev_power d)
                (coalesce (map_option grid_electricity_price right) (to_double 0.15)),
            rec_recommendation =
              generate_llm_recommendation (dev_device_id d) (dev_device_type d)
                (dev_power d) (dev_current d)
                (coalesce (map_option grid_carbon_intensity right) 500.0)
                (coalesce (map_option grid_carbon_level right) ''MEDIUM'')
                (coalesce (map_option grid_electricity_price right) (to_double 0.15))
                (coalesce (map_option grid_pricing_tier right) ''MEDIUM'')
                (coalesce (map_option grid_renewable_pct right) 35.0)
                ((\<lambda>p price. py_round (float_mul (float_div p 1000) price) 4) (dev_power d)
                   (coalesce (map_option grid_electricity_price right) (to_double 0.15))),
            rec_timestamp = dev_timestamp d\<rparr>)
       device_stream"

subsection \<open>Source adapters (utils.py)\<close>

text \<open>
  What \<^verbatim>\<open>response.json()\<close> returns. An object lists the items of the parsed dict in
  their order, each key once. A number without fraction or exponent is parsed to an
  \<^verbatim>\<open>int\<close>, any other number to a \<^verbatim>\<open>float\<close>, which holds a binary64 number.
\<close>

datatype json =
  JNull | JBool bool | JInt int | JFloat real | JStr string | JArr "json list"
  | JObj "(string \<times> json) list"

text \<open>The exceptions a poll can raise; each is a subclass of \<^verbatim>\<open>Exception\<close>.\<close>

datatype py_error =
  ConnectionError | Timeout | HTTPError nat | JSONDecodeError
  | AttributeError | KeyError string | TypeError | ValueError | OverflowError

text \<open>How one HTTP GET ends: no connection, no answer in time, or a status and a body
  (\<open>None\<close> when the body is not JSON).\<close>

datatype http_outcome = Unreachable | TimedOut | Response nat "json option"

text \<open>
  The two builtins whose results the theory does not compute: \<^verbatim>\<open>float\<close> of a string
  (\<open>None\<close> where it raises \<^verbatim>\<open>ValueError\<close>) and \<^verbatim>\<open>str\<close> of a value that is not a
  string. They are a parameter of the adapters.
\<close>

record builtins =
  float_of_string :: "string \<Rightarrow> real option"
  repr :: "json \<Rightarrow> string"

definition and_then :: "py_error + 'a \<Rightarrow> ('a \<Rightarrow> py_error + 'b) \<Rightarrow> py_error + 'b" where
  "and_then m f = (case m of Inl e \<Rightarrow> Inl e | Inr x \<Rightarrow> f x)"

definition py_float :: "builtins \<Rightarrow> json \<Rightarrow> py_error + real" where
  \<comment> \<open>\<^verbatim>\<open>float(v)\<close>: an \<^verbatim>\<open>int\<close> is rounded to the nearest float, and one that would
      round beyond the largest float raises \<^verbatim>\<open>OverflowError\<close>\<close>
  "py_float B v =
     (case v of
        JFloat x \<Rightarrow> Inr x
      | JInt i \<Rightarrow>
          if 2 ^ 1024 - 2 ^ 970 \<le> \<bar>i\<bar> then Inl OverflowError
          else Inr (to_double (of_int i))
      | JBool b \<Rightarrow> Inr (if b then 1 else 0)
      | JStr s \<Rightarrow> (case float_of_string B s of None \<Rightarrow> Inl ValueError | Some x \<Rightarrow> Inr x)
      | JNull \<Rightarrow> Inl TypeError
      | JArr _ \<Rightarrow> Inl TypeError
      | JObj _ \<Rightarrow> Inl TypeError)"

definition py_str :: "builtins \<Rightarrow> json \<Rightarrow> string" where
  "py_str B v = (case v of JStr s \<Rightarrow> s | _ \<Rightarrow> repr B v)"

definition py_getitem :: "json \<Rightarrow> string \<Rightarrow> py_error + json" where
  \<comment> \<open>\<^verbatim>\<open>v[k]\<close>\<close>
  "py_getitem v k =
     (case v of
        JObj kvs \<Rightarrow> (case map_of kvs k of None \<Rightarrow> Inl (KeyError k) | Some x \<Rightarrow> Inr x)
      | _ \<Rightarrow> Inl TypeError)"

definition py_get :: "json \<Rightarrow> string \<Rightarrow> json \<Rightarrow> py_error + json" where
  \<comment> \<open>\<^verbatim>\<open>v.get(k, d)\<close>\<close>
  "py_get v k d =
     (case v of
        JObj kvs \<Rightarrow> Inr (case map_of kvs k of None \<Rightarrow> d | Some x \<Rightarrow> x)
      | _ \<Rightarrow> Inl AttributeError)"

definition py_items :: "json \<Rightarrow> py_error + (string \<times> json) list" where
  \<comment> \<open>\<^verbatim>\<open>v.items()\<close>\<close>
  "py_items v = (case v of JObj kvs \<Rightarrow> Inr kvs | _ \<Rightarrow> Inl AttributeError)"

definition fetch_internal_stream :: "http_outcome \<Rightarrow> py_error + json" where
  "fetch_internal_stream outcome =
     (case outcome of
        Unreachable \<Rightarrow> Inl ConnectionError
      | TimedOut \<Rightarrow> Inl Timeout
      | Response code body \<Rightarrow>
          if 400 \<le> code \<and> code < 600 then Inl (HTTPError code)
          else (case body of None \<Rightarrow> Inl JSONDecodeError | Some data \<Rightarrow> Inr data))"

definition fetch_external_stream :: "http_outcome \<Rightarrow> py_error + json" where
  "fetch_external_stream outcome =
     (case outcome of
        Unreachable \<Rightarrow> Inl ConnectionError
      | TimedOut \<Rightarrow> Inl Timeout
      | Response code body \<Rightarrow>
          if 400 \<le> code \<and> code < 600 then Inl (HTTPError code)
          else (case body of None \<Rightarrow> Inl JSONDecodeError | Some data \<Rightarrow> Inr data))"

text \<open>
  What a generator does, in order: a row handed to its consumer, the message printed
  by the \<^verbatim>\<open>except\<close> clause, a sleep. The line printed once before the loop is left out.
\<close>

datatype 'row event = Yield 'row | Print py_error | Sleep real

definition yielded :: "'row event list \<Rightarrow> 'row list" where
  "yielded evs = concat (map (\<lambda>ev. case ev of Yield row \<Rightarrow> [row] | _ \<Rightarrow> []) evs)"

definition printed :: "'row event list \<Rightarrow> py_error list" where
  "printed evs = concat (map (\<lambda>ev. case ev of Print e \<Rightarrow> [e] | _ \<Rightarrow> []) evs)"

definition device_record :: "builtins \<Rightarrow> string \<Rightarrow> json \<Rightarrow> json \<Rightarrow> py_error + DeviceRow" where
  \<comment> \<open>the dict of the \<^verbatim>\<open>yield\<close>, its values evaluated in order\<close>
  "device_record B device_id telemetry timestamp =
     and_then (py_getitem telemetry ''device_type'') (\<lambda>device_type.
     and_then (py_getitem telemetry ''status'') (\<lambda>status.
     and_then (and_then (py_getitem telemetry ''voltage'') (py_float B)) (\<lambda>voltage.
     and_then (and_then (py_getitem telemetry ''current'') (py_float B)) (\<lambda>current.
     and_then (and_then (py_getitem telemetry ''power'') (py_float B)) (\<lambda>pw.
     and_then (py_float B timestamp) (\<lambda>ts.
       Inr \<lparr>dev_device_id = device_id,
            dev_device_type = py_str B device_type,
            dev_status = py_str B status,
            dev_voltage = voltage,
            dev_current = current,
            dev_power = pw,
            dev_timestamp = ts\<rparr>))))))"

fun yield_devices :: "builtins \<Rightarrow> json \<Rightarrow> (string \<times> json) list \<Rightarrow> DeviceRow event list" where
  \<comment> \<open>the \<^verbatim>\<open>for\<close> loop inside the \<^verbatim>\<open>try\<close>: an exception ends the loop and is printed\<close>
  "yield_devices B timestamp [] = []"
| "yield_devices B timestamp ((device_id, telemetry) # rest) =
     (case device_record B device_id telemetry timestamp of
        Inl e \<Rightarrow> [Print e]
      | Inr row \<Rightarrow> Yield row # yield_devices B timestamp rest)"

definition internal_poll :: "builtins \<Rightarrow> http_outcome \<times> real \<Rightarrow> DeviceRow event list" where
  \<comment> \<open>one turn of the \<^verbatim>\<open>while True\<close> loop; the second component is what
      \<^verbatim>\<open>time.time()\<close> reads\<close>
  "internal_poll B p =
     (case fetch_internal_stream (fst p) of
        Inl e \<Rightarrow> [Print e]
      | Inr data \<Rightarrow>
          (case py_get data ''timestamp'' (JFloat (snd p)) of
             Inl e \<Rightarrow> [Print e]
           | Inr timestamp \<Rightarrow>
               (case and_then (py_get data ''devices'' (JObj [])) py_items of
                  Inl e \<Rightarrow> [Print e]
                | Inr items \<Rightarrow> yield_devices B timestamp items)))
     @ [Sleep INTERNAL_POLL_INTERVAL]"

fun internal_stream_generator ::
  "builtins \<Rightarrow> (http_outcome \<times> real) list \<Rightarrow> DeviceRow event list"
where
  \<comment> \<open>the loop never ends by itself: the events of its first turns, one turn for each
      outcome the environment supplies\<close>
  "internal_stream_generator B [] = []"
| "internal_stream_generator B (p # polls) = internal_poll B p @ internal_stream_generator B polls"

definition grid_record :: "builtins \<Rightarrow> json \<Rightarrow> py_error + GridRow" where
  "grid_record B data =
     and_then (and_then (py_getitem data ''carbon_intensity'') (py_float B)) (\<lambda>carbon_intensity.
     and_then (py_getitem data ''carbon_level'') (\<lambda>carbon_level.
     and_then (and_then (py_getitem data ''electricity_price'') (py_float B)) (\<lambda>electricity_price.
     and_then (py_getitem data ''pricing_tier'') (\<lambda>pricing_tier.
     and_then (and_then (py_getitem data ''grid_renewable_percentage'') (py_float B)) (\<lambda>renewable_pct.
     and_then (and_then (py_getitem data ''last_updated'') (py_float B)) (\<lambda>ts.
       Inr \<lparr>grid_carbon_intensity = carbon_intensity,
            grid_carbon_level = py_str B carbon_level,
            grid_electricity_price = electricity_price,
            grid_pricing_tier = py_str B pricing_tier,
            grid_renewable_pct = renewable_pct,
            grid_timestamp = ts\<rparr>))))))"

definition external_poll :: "builtins \<Rightarrow> http_outcome \<Rightarrow> GridRow event list" where
  "external_poll B outcome =
     (case and_then (fetch_external_stream outcome) (grid_record B) of
        Inl e \<Rightarrow> [Print e]
      | Inr row \<Rightarrow> [Yield row])
     @ [Sleep EXTERNAL_POLL_INTERVAL]"

fun external_stream_generator :: "builtins \<Rightarrow> http_outcome list \<Rightarrow> GridRow event list" where
  "external_stream_generator B [] = []"
| "external_stream_generator B (outcome # polls) =
     external_poll B outcome @ external_stream_generator B polls"

subsection \<open>The changelog of the statistics view\<close>

text \<open>
  Modelled from the spec: the emission of changelog entries for \<^verbatim>\<open>device_stats\<close>. The
  repository only hands the grouped table to \<^verbatim>\<open>pw.io.jsonlines.write\<close>; the entries
  are produced by the dataflow engine, which is not part of the sources. The spec
  (section 4.2) describes the engine as an operation \<open>ingest\<close> on running sums: look up
  or initialise the running state of the row's device type; add one to the count, the
  current to the sum of currents, the power to the sum of powers, and take the maximum
  with the current; compute the two averages; if a prior aggregate row existed for the
  type, emit a retraction for it; emit an insertion for the new aggregate row. An entry
  is a row with its \<open>diff\<close>, +1 or -1. The running maximum of a type without state
  starts at the current of its first row.
\<close>

record running =
  sum_current :: real
  sum_power :: real
  sample_count :: nat
  running_max :: real

definition aggregate_row :: "string \<Rightarrow> running \<Rightarrow> AggregateRow" where
  \<comment> \<open>Modelled from the spec: step 3 of \<open>ingest\<close>, the aggregate row of the running state;
      the engine that computes it is not in the sources\<close>
  "aggregate_row key st =
     \<lparr>agg_device_type = key,
      avg_current = sum_current st / real (sample_count st),
      max_current = running_max st,
      avg_power = sum_power st / real (sample_count st),
      total_samples = sample_count st\<rparr>"

definition ingest ::
  "(string \<rightharpoonup> running) \<Rightarrow> DeviceRow \<Rightarrow> (string \<rightharpoonup> running) \<times> (AggregateRow \<times> int) list"
where
  \<comment> \<open>Modelled from the spec: the operation \<open>ingest(DeviceRow)\<close> of section 4.2, steps 1
      to 5; the engine that emits the entries is not in the sources\<close>
  "ingest state row =
     (let key = dev_device_type row;
          prior = state key;
          st = (case prior of
                  None \<Rightarrow> \<lparr>sum_current = 0, sum_power = 0, sample_count = 0,
                           running_max = dev_current row\<rparr>
                | Some s \<Rightarrow> s);
          st' = \<lparr>sum_current = sum_current st + dev_current row,
                 sum_power = sum_power st + dev_power row,
                 sample_count = sample_count st + 1,
                 running_max = max (running_max st) (dev_current row)\<rparr>
      in (state(key \<mapsto> st'),
          (case prior of None \<Rightarrow> [] | Some s \<Rightarrow> [(aggregate_row key s, - 1)])
          @ [(aggregate_row key st', 1)]))"

definition ingest_all ::
  "DeviceRow list \<Rightarrow> (string \<rightharpoonup> running) \<times> (AggregateRow \<times> int) list"
where
  \<comment> \<open>Modelled from the spec: one \<open>ingest\<close> for each device row, in arrival order, the
      entries appended in emission order; the engine's run loop is not in the sources\<close>
  "ingest_all device_stream =
     foldl (\<lambda>(state, changelog) row. let (state', out) = ingest state row in (state', changelog @ out))
       (Map.empty, []) device_stream"

definition device_stats_changelog :: "DeviceRow list \<Rightarrow> (AggregateRow \<times> int) list" where
  \<comment> \<open>Modelled from the spec: the changelog of the \<^verbatim>\<open>device_stats\<close> view, written by the
      engine's sink, which is not in the sources\<close>
  "device_stats_changelog device_stream = snd (ingest_all device_stream)"

text \<open>
  Modelled from the spec: the reader's replay of a changelog (section 3), which the
  sources do not hold. The cumulative \<open>diff\<close> of a row is the sum of
  the \<open>diff\<close>s of its entries, a row is live when its cumulative \<open>diff\<close> is positive, and
  the \<open>diff\<close>s of a logical key are those of the entries of its device type.
\<close>

definition cumulative_diff :: "(AggregateRow \<times> int) list \<Rightarrow> AggregateRow \<Rightarrow> int" where
  "cumulative_diff changelog r = sum_list (map snd (filter (\<lambda>entry. fst entry = r) changelog))"

definition key_diff :: "(AggregateRow \<times> int) list \<Rightarrow> string \<Rightarrow> int" where
  "key_diff changelog key =
     sum_list (map snd (filter (\<lambda>entry. agg_device_type (fst entry) = key) changelog))"

definition live_rows :: "(AggregateRow \<times> int) list \<Rightarrow> string \<Rightarrow> AggregateRow list" where
  "live_rows changelog key =
     remdups (filter (\<lambda>r. agg_device_type r = key \<and> 0 < cumulative_diff changelog r) (map fst changelog))"

section \<open>Properties\<close>

lemmas fmt_eval =
  fmt_fixed_def round_half_even_def Let_def show_nat.simps digit_char_def pad_zeros_def

subsection \<open>Binary64 arithmetic\<close>

lemma pow2_pos: "0 < pow2 e"
  by (simp add: pow2_def)

lemma pow2_powr: "pow2 e = 2 powr (real_of_int e)"
proof (cases "0 \<le> e")
  case True
  have "(2 :: real) powr real (nat e) = 2 ^ nat e"
    by (rule powr_realpow) simp
  moreover have "real (nat e) = real_of_int e" using True by simp
  ultimately show ?thesis using True by (simp add: pow2_def)
next
  case False
  have "(2 :: real) powr real (nat (- e)) = 2 ^ nat (- e)"
    by (rule powr_realpow) simp
  moreover have "real (nat (- e)) = - real_of_int e" using False by simp
  ultimately have "(2 :: real) powr (- real_of_int e) = 2 ^ nat (- e)" by simp
  then have "(2 :: real) powr real_of_int e = 1 / 2 ^ nat (- e)"
    using powr_minus_divide [of 2 "- real_of_int e"] by simp
  then show ?thesis using False by (simp add: pow2_def)
qed

lemma binade_eq:
  assumes "pow2 e \<le> \<bar>x\<bar>" and "\<bar>x\<bar> < pow2 (e + 1)" and "- 1022 \<le> e"
  shows "binade x = e"
proof -
  have pos: "0 < \<bar>x\<bar>"
    using assms(1) pow2_pos [of e] by linarith
  have "real_of_int e \<le> log 2 \<bar>x\<bar>"
    using assms(1) pos by (simp add: pow2_powr le_log_iff)
  moreover have "log 2 \<bar>x\<bar> < real_of_int e + 1"
    using assms(2) pos by (simp add: pow2_powr log_less_iff add.commute)
  ultimately have "\<lfloor>log 2 \<bar>x\<bar>\<rfloor> = e" by (rule floor_unique)
  with assms(3) show ?thesis by (simp add: binade_def)
qed

lemma to_double_eval:
  assumes "pow2 e \<le> \<bar>x\<bar>" and "\<bar>x\<bar> < pow2 (e + 1)" and "- 1022 \<le> e"
  shows "to_double x = of_int (round_half_even (x / pow2 (e - 52))) * pow2 (e - 52)"
proof -
  have "x \<noteq> 0" using assms(1) pow2_pos [of e] by auto
  then show ?thesis
    using binade_eq [OF assms] by (simp add: to_double_def Let_def)
qed

text \<open>The floats of the literal 0.15 and of the quotients and products used below.\<close>

lemma double_0_15: "to_double 0.15 = 5404319552844595 / 2 ^ 55"
  using to_double_eval [of "- 3" "0.15"]
  by (simp add: pow2_def round_half_even_def Let_def)

lemma double_800_div_1000: "float_div 800 1000 = 7205759403792794 / 2 ^ 53"
  using to_double_eval [of "- 1" "800 / 1000"]
  by (simp add: float_div_def pow2_def round_half_even_def Let_def)

lemma double_25_div_1000: "float_div 25 1000 = 7205759403792794 / 2 ^ 58"
  using to_double_eval [of "- 6" "25 / 1000"]
  by (simp add: float_div_def pow2_def round_half_even_def Let_def)

lemma double_600_div_1000: "float_div 600 1000 = 5404319552844595 / 2 ^ 53"
  using to_double_eval [of "- 1" "600 / 1000"]
  by (simp add: float_div_def pow2_def round_half_even_def Let_def)

lemma double_350_div_1000: "float_div 350 1000 = 6305039478318694 / 2 ^ 54"
  using to_double_eval [of "- 2" "350 / 1000"]
  by (simp add: float_div_def pow2_def round_half_even_def Let_def)

lemma cost_800: "py_round (float_mul (float_div 800 1000) (to_double 0.15)) 4 = to_double 0.12"
proof -
  have prod: "float_mul (float_div 800 1000) (to_double 0.15) = 8646911284551352 / 2 ^ 56"
    unfolding double_800_div_1000 double_0_15 float_mul_def
    using to_double_eval [of "- 4" "7205759403792794 / 2 ^ 53 * (5404319552844595 / 2 ^ 55)"]
    by (simp add: pow2_def round_half_even_def Let_def)
  show ?thesis
    unfolding prod by (simp add: py_round_def round_half_even_def Let_def)
qed

lemma cost_25: "py_round (float_mul (float_div 25 1000) (to_double 0.15)) 4 = to_double 0.0037"
proof -
  have prod: "float_mul (float_div 25 1000) (to_double 0.15) = 8646911284551352 / 2 ^ 61"
    unfolding double_25_div_1000 double_0_15 float_mul_def
    using to_double_eval [of "- 9" "7205759403792794 / 2 ^ 58 * (5404319552844595 / 2 ^ 55)"]
    by (simp add: pow2_def round_half_even_def Let_def)
  show ?thesis
    unfolding prod by (simp add: py_round_def round_half_even_def Let_def)
qed

lemma double_0_0037: "to_double 0.0037 = 8531619134090668 / 2 ^ 61"
  using to_double_eval [of "- 9" "0.0037"]
  by (simp add: pow2_def round_half_even_def Let_def)

lemma double_0_0038: "to_double 0.0038 = 8762203435012037 / 2 ^ 61"
  using to_double_eval [of "- 9" "0.0038"]
  by (simp add: pow2_def round_half_even_def Let_def)

lemma double_0_12: "to_double 0.12 = 8646911284551352 / 2 ^ 56"
  using to_double_eval [of "- 4" "0.12"]
  by (simp add: pow2_def round_half_even_def Let_def)

text \<open>An integer below \<open>2\<^sup>5\<^sup>3\<close> in size is a float.\<close>

lemma pow2_nonpos: "e \<le> 0 \<Longrightarrow> pow2 e = 1 / 2 ^ nat (- e)"
  by (cases "e = 0") (simp_all add: pow2_def)

lemma round_half_even_of_int: "round_half_even (of_int k) = k"
  by (simp add: round_half_even_def)

lemma to_double_int:
  assumes "\<bar>i\<bar> < 2 ^ 53"
  shows "to_double (of_int i) = of_int i"
proof (cases "i = 0")
  case True
  then show ?thesis by (simp add: to_double_def)
next
  case False
  let ?x = "real_of_int i"
  let ?b = "binade ?x"
  have one: "1 \<le> \<bar>?x\<bar>" using False by (simp flip: of_int_abs)
  have lt: "\<bar>?x\<bar> < 2 ^ 53"
  proof -
    have "real_of_int \<bar>i\<bar> < real_of_int (2 ^ 53)" using assms by (simp only: of_int_less_iff)
    then show ?thesis by simp
  qed
  have "0 \<le> log 2 \<bar>?x\<bar>" using one by simp
  then have lo: "0 \<le> ?b" by (simp add: binade_def)
  have "log 2 \<bar>?x\<bar> < 53"
    using log_less_iff [of 2 "\<bar>?x\<bar>" 53] lt one by simp
  then have "\<lfloor>log 2 \<bar>?x\<bar>\<rfloor> < 53" by (simp add: floor_less_iff)
  then have "\<lfloor>log 2 \<bar>?x\<bar>\<rfloor> \<le> 52" by simp
  then have hi: "?b \<le> 52" by (simp add: binade_def)
  have ulp: "pow2 (?b - 52) = 1 / 2 ^ nat (52 - ?b)"
    using pow2_nonpos [of "?b - 52"] hi by simp
  have "?x / pow2 (?b - 52) = of_int (i * 2 ^ nat (52 - ?b))"
    by (simp add: ulp)
  then have "round_half_even (?x / pow2 (?b - 52)) = i * 2 ^ nat (52 - ?b)"
    by (simp only: round_half_even_of_int)
  then show ?thesis
    using False by (simp add: to_double_def Let_def ulp)
qed

lemma to_double_numeral:
  "(numeral n :: int) < 2 ^ 53 \<Longrightarrow> to_double (numeral n) = numeral n"
  using to_double_int [of "numeral n"] by simp

subsection \<open>Alert selection\<close>

text \<open>
  C3. \<^verbatim>\<open>get_anomaly_alert\<close> selects the alert text by first match: status "starting"
  with a current above the threshold gives the motor-inrush text; otherwise status
  "fault" gives the fault text whatever the current is; otherwise a current above the
  threshold gives the high-current text; otherwise the generic text. A row with status
  "starting" and current 120 gets the motor-inrush text, which is not the high-current
  one.
\<close>

theorem get_anomaly_alert_priority:
  "(status = ''starting'' \<and> current > HIGH_CURRENT_THRESHOLD \<longrightarrow>
      get_anomaly_alert current status
        = WARNING_SIGN @ '' MOTOR INRUSH: '' @ fmt_fixed 1 current @ ''A'')
   \<and> (\<not> (status = ''starting'' \<and> current > HIGH_CURRENT_THRESHOLD) \<and> status = ''fault'' \<longrightarrow>
      get_anomaly_alert current status
        = POLICE_LIGHT @ '' FAULT DETECTED: '' @ fmt_fixed 1 current @ ''A'')
   \<and> (\<not> (status = ''starting'' \<and> current > HIGH_CURRENT_THRESHOLD) \<and> status \<noteq> ''fault''
        \<and> current > HIGH_CURRENT_THRESHOLD \<longrightarrow>
      get_anomaly_alert current status
        = HIGH_VOLTAGE_SIGN @ '' HIGH CURRENT: '' @ fmt_fixed 1 current @ ''A'')
   \<and> (\<not> (status = ''starting'' \<and> current > HIGH_CURRENT_THRESHOLD) \<and> status \<noteq> ''fault''
        \<and> \<not> current > HIGH_CURRENT_THRESHOLD \<longrightarrow>
      get_anomaly_alert current status
        = WARNING_SIGN @ '' ANOMALY: '' @ fmt_fixed 1 current @ ''A'')
   \<and> get_anomaly_alert 120 ''starting'' = WARNING_SIGN @ '' MOTOR INRUSH: 120.0A''
   \<and> get_anomaly_alert 120 ''starting'' \<noteq> HIGH_VOLTAGE_SIGN @ '' HIGH CURRENT: 120.0A''"
proof -
  have scenario: "get_anomaly_alert 120 ''starting'' = WARNING_SIGN @ '' MOTOR INRUSH: 120.0A''"
    by (simp add: get_anomaly_alert_def HIGH_CURRENT_THRESHOLD_def fmt_eval)
  have differ:
    "WARNING_SIGN @ '' MOTOR INRUSH: 120.0A'' \<noteq> HIGH_VOLTAGE_SIGN @ '' HIGH CURRENT: 120.0A''"
    by (simp add: WARNING_SIGN_def HIGH_VOLTAGE_SIGN_def)
  show ?thesis
    using scenario differ by (simp add: get_anomaly_alert_def)
qed

theorem get_anomaly_alert_priority_witness:
  "get_anomaly_alert 120 ''starting'' = WARNING_SIGN @ '' MOTOR INRUSH: 120.0A''
   \<and> get_anomaly_alert 150 ''fault'' = POLICE_LIGHT @ '' FAULT DETECTED: 150.0A''
   \<and> get_anomaly_alert 30 ''fault'' = POLICE_LIGHT @ '' FAULT DETECTED: 30.0A''
   \<and> get_anomaly_alert 101.25 ''running'' = HIGH_VOLTAGE_SIGN @ '' HIGH CURRENT: 101.2A''
   \<and> get_anomaly_alert 100 ''starting'' = WARNING_SIGN @ '' ANOMALY: 100.0A''"
proof -
  have "get_anomaly_alert 120 ''starting'' = WARNING_SIGN @ '' MOTOR INRUSH: 120.0A''"
    using get_anomaly_alert_priority [of "''starting''" 120,
        THEN conjunct2, THEN conjunct2, THEN conjunct2, THEN conjunct2, THEN conjunct1] by simp
  moreover have "get_anomaly_alert 150 ''fault'' = POLICE_LIGHT @ '' FAULT DETECTED: 150.0A''"
    using get_anomaly_alert_priority [of "''fault''" 150,
        THEN conjunct2, THEN conjunct1]
    by (simp add: HIGH_CURRENT_THRESHOLD_def fmt_eval)
  moreover have "get_anomaly_alert 30 ''fault'' = POLICE_LIGHT @ '' FAULT DETECTED: 30.0A''"
    using get_anomaly_alert_priority [of "''fault''" 30,
        THEN conjunct2, THEN conjunct1]
    by (simp add: HIGH_CURRENT_THRESHOLD_def fmt_eval)
  moreover have
    "get_anomaly_alert 101.25 ''running'' = HIGH_VOLTAGE_SIGN @ '' HIGH CURRENT: 101.2A''"
    using get_anomaly_alert_priority [of "''running''" "101.25",
        THEN conjunct2, THEN conjunct2, THEN conjunct1]
    by (simp add: HIGH_CURRENT_THRESHOLD_def fmt_eval)
  moreover have "get_anomaly_alert 100 ''starting'' = WARNING_SIGN @ '' ANOMALY: 100.0A''"
    using get_anomaly_alert_priority [of "''starting''" 100,
        THEN conjunct2, THEN conjunct2, THEN conjunct2, THEN conjunct1]
    by (simp add: HIGH_CURRENT_THRESHOLD_def fmt_eval)
  ultimately show ?thesis by blast
qed

subsection \<open>The anomaly predicate\<close>

text \<open>
  C6. The anomaly detector emits a row for a device row exactly when the row's current
  is strictly above \<open>HIGH_CURRENT_THRESHOLD\<close>, which is 100. The detector works row by
  row, so of two rows, one above the threshold and one not, the first is emitted and
  the second is not.
\<close>

theorem detect_anomalies_iff_above_threshold:
  "HIGH_CURRENT_THRESHOLD = 100
   \<and> (detect_anomalies [row] \<noteq> []) = (dev_current row > 100)
   \<and> (dev_current row > 100 \<longrightarrow>
        detect_anomalies [row] =
          [\<lparr>anom_device_id = dev_device_id row, anom_device_type = dev_device_type row,
            anom_current = dev_current row, anom_power = dev_power row,
            anom_status = dev_status row,
            anom_alert = get_anomaly_alert (dev_current row) (dev_status row),
            anom_timestamp = dev_timestamp row\<rparr>])
   \<and> detect_anomalies (before @ row # after)
        = detect_anomalies before @ detect_anomalies [row] @ detect_anomalies after
   \<and> (dev_current a > HIGH_CURRENT_THRESHOLD \<and> \<not> dev_current b > HIGH_CURRENT_THRESHOLD \<longrightarrow>
        detect_anomalies [a] \<noteq> [] \<and> detect_anomalies [b] = [])"
  by (simp add: detect_anomalies_def HIGH_CURRENT_THRESHOLD_def)

theorem detect_anomalies_iff_above_threshold_witness:
  "detect_anomalies
     [\<lparr>dev_device_id = ''M1'', dev_device_type = ''motor'', dev_status = ''running'',
       dev_voltage = 230, dev_current = 100.5, dev_power = 900, dev_timestamp = 1\<rparr>]
   = [\<lparr>anom_device_id = ''M1'', anom_device_type = ''motor'', anom_current = 100.5,
        anom_power = 900, anom_status = ''running'',
        anom_alert = HIGH_VOLTAGE_SIGN @ '' HIGH CURRENT: 100.5A'', anom_timestamp = 1\<rparr>]
   \<and> detect_anomalies
     [\<lparr>dev_device_id = ''M1'', dev_device_type = ''motor'', dev_status = ''running'',
       dev_voltage = 230, dev_current = 100, dev_power = 900, dev_timestamp = 1\<rparr>] = []"
proof -
  let ?a = "\<lparr>dev_device_id = ''M1'', dev_device_type = ''motor'', dev_status = ''running'',
       dev_voltage = 230, dev_current = 100.5, dev_power = 900, dev_timestamp = 1\<rparr>"
  let ?b = "\<lparr>dev_device_id = ''M1'', dev_device_type = ''motor'', dev_status = ''running'',
       dev_voltage = 230, dev_current = 100, dev_power = 900, dev_timestamp = 1\<rparr>"
  have "detect_anomalies [?a]
      = [\<lparr>anom_device_id = ''M1'', anom_device_type = ''motor'', anom_current = 100.5,
        anom_power = 900, anom_status = ''running'',
        anom_alert = HIGH_VOLTAGE_SIGN @ '' HIGH CURRENT: 100.5A'', anom_timestamp = 1\<rparr>]"
    using detect_anomalies_iff_above_threshold [of ?a "[]" "[]" ?a ?b,
        THEN conjunct2, THEN conjunct2, THEN conjunct1]
    by (simp add: get_anomaly_alert_def HIGH_CURRENT_THRESHOLD_def fmt_eval)
  moreover have "detect_anomalies [?b] = []"
    using detect_anomalies_iff_above_threshold [of ?a "[]" "[]" ?a ?b,
        THEN conjunct2, THEN conjunct2, THEN conjunct2, THEN conjunct2]
    by (simp add: HIGH_CURRENT_THRESHOLD_def)
  ultimately show ?thesis by blast
qed

text \<open>
  C10. Every row the anomaly detector emits has a current above the threshold, its
  alert is the text \<^verbatim>\<open>get_anomaly_alert\<close> gives for its current and status, that text
  is the motor-inrush, the fault or the high-current one, each carrying the current
  formatted to one decimal, and it is never the generic text, whatever number that
  would carry.
\<close>

theorem anomaly_alert_never_generic:
  assumes "a \<in> set (detect_anomalies device_stream)"
  shows "anom_current a > HIGH_CURRENT_THRESHOLD
    \<and> anom_alert a = get_anomaly_alert (anom_current a) (anom_status a)
    \<and> (anom_alert a = WARNING_SIGN @ '' MOTOR INRUSH: '' @ fmt_fixed 1 (anom_current a) @ ''A''
        \<or> anom_alert a = POLICE_LIGHT @ '' FAULT DETECTED: '' @ fmt_fixed 1 (anom_current a) @ ''A''
        \<or> anom_alert a = HIGH_VOLTAGE_SIGN @ '' HIGH CURRENT: '' @ fmt_fixed 1 (anom_current a) @ ''A'')
    \<and> anom_alert a \<noteq> WARNING_SIGN @ '' ANOMALY: '' @ fmt_fixed 1 c @ ''A''"
proof -
  from assms obtain r where r: "r \<in> set device_stream" "dev_current r > HIGH_CURRENT_THRESHOLD"
    and a: "a = \<lparr>anom_device_id = dev_device_id r, anom_device_type = dev_device_type r,
            anom_current = dev_current r, anom_power = dev_power r,
            anom_status = dev_status r,
            anom_alert = get_anomaly_alert (dev_current r) (dev_status r),
            anom_timestamp = dev_timestamp r\<rparr>"
    by (auto simp add: detect_anomalies_def)
  have cur: "anom_current a > HIGH_CURRENT_THRESHOLD" using r a by simp
  have al: "anom_alert a = get_anomaly_alert (anom_current a) (anom_status a)" using a by simp
  have three: "get_anomaly_alert x s = WARNING_SIGN @ '' MOTOR INRUSH: '' @ fmt_fixed 1 x @ ''A''
        \<or> get_anomaly_alert x s = POLICE_LIGHT @ '' FAULT DETECTED: '' @ fmt_fixed 1 x @ ''A''
        \<or> get_anomaly_alert x s = HIGH_VOLTAGE_SIGN @ '' HIGH CURRENT: '' @ fmt_fixed 1 x @ ''A''"
    if "x > HIGH_CURRENT_THRESHOLD" for x s
    using that by (simp add: get_anomaly_alert_def)
  have ne: "get_anomaly_alert x s \<noteq> WARNING_SIGN @ '' ANOMALY: '' @ fmt_fixed 1 c @ ''A''"
    if "x > HIGH_CURRENT_THRESHOLD" for x s
    using that
    by (simp add: get_anomaly_alert_def WARNING_SIGN_def POLICE_LIGHT_def HIGH_VOLTAGE_SIGN_def)
  show ?thesis using cur al three [OF cur] ne [OF cur] by simp
qed

theorem anomaly_alert_never_generic_witness:
  "\<lparr>anom_device_id = ''M1'', anom_device_type = ''motor'', anom_current = 150,
     anom_power = 900, anom_status = ''fault'',
     anom_alert = POLICE_LIGHT @ '' FAULT DETECTED: 150.0A'', anom_timestamp = 1\<rparr>
     \<in> set (detect_anomalies
        [\<lparr>dev_device_id = ''M1'', dev_device_type = ''motor'', dev_status = ''fault'',
          dev_voltage = 230, dev_current = 150, dev_power = 900, dev_timestamp = 1\<rparr>])
   \<and> get_anomaly_alert 150 ''fault'' = POLICE_LIGHT @ '' FAULT DETECTED: 150.0A''
   \<and> get_anomaly_alert 150 ''fault'' \<noteq> WARNING_SIGN @ '' ANOMALY: 150.0A''"
proof -
  let ?r = "\<lparr>dev_device_id = ''M1'', dev_device_type = ''motor'', dev_status = ''fault'',
          dev_voltage = 230, dev_current = 150, dev_power = 900, dev_timestamp = 1\<rparr>"
  let ?a = "\<lparr>anom_device_id = ''M1'', anom_device_type = ''motor'', anom_current = 150,
     anom_power = 900, anom_status = ''fault'',
     anom_alert = POLICE_LIGHT @ '' FAULT DETECTED: 150.0A'', anom_timestamp = 1\<rparr>"
  have h: "?a \<in> set (detect_anomalies [?r])"
    by (simp add: detect_anomalies_def get_anomaly_alert_def HIGH_CURRENT_THRESHOLD_def fmt_eval)
  have alert: "get_anomaly_alert 150 ''fault'' = POLICE_LIGHT @ '' FAULT DETECTED: 150.0A''"
    by (simp add: get_anomaly_alert_def HIGH_CURRENT_THRESHOLD_def fmt_eval)
  have fmt: "fmt_fixed 1 150 = ''150.0''"
    by (simp add: fmt_eval)
  from anomaly_alert_never_generic [OF h, of 150]
  have "anom_alert ?a \<noteq> WARNING_SIGN @ '' ANOMALY: '' @ fmt_fixed 1 150 @ ''A''"
    by blast
  then have "get_anomaly_alert 150 ''fault'' \<noteq> WARNING_SIGN @ '' ANOMALY: 150.0A''"
    unfolding fmt alert by simp
  with h alert show ?thesis by blast
qed

subsection \<open>The enrichment join\<close>

lemma asof_fold_pick:
  "fold (\<lambda>h best. if grid_timestamp best \<le> grid_timestamp h then h else best) gs g \<in> set (g # gs)
   \<and> (\<forall>h\<in>set (g # gs). grid_timestamp h
        \<le> grid_timestamp
            (fold (\<lambda>h best. if grid_timestamp best \<le> grid_timestamp h then h else best) gs g))"
proof (induction gs arbitrary: g)
  case Nil
  then show ?case by simp
next
  case (Cons a gs)
  show ?case
  proof (cases "grid_timestamp g \<le> grid_timestamp a")
    case True
    with Cons [of a] show ?thesis by auto
  next
    case False
    with Cons [of g] show ?thesis by auto
  qed
qed

lemma asof_backward_Some:
  assumes "asof_backward t grid_stream = Some g"
  shows "g \<in> set grid_stream \<and> grid_timestamp g \<le> t
    \<and> (\<forall>h\<in>set grid_stream. grid_timestamp h \<le> t \<longrightarrow> grid_timestamp h \<le> grid_timestamp g)"
proof -
  let ?fs = "filter (\<lambda>g. grid_timestamp g \<le> t) grid_stream"
  from assms obtain x xs where fs: "?fs = x # xs"
    and g: "g = fold (\<lambda>h best. if grid_timestamp best \<le> grid_timestamp h then h else best) xs x"
    by (auto simp add: asof_backward_def split: list.splits)
  from asof_fold_pick [of xs x] g fs
  have "g \<in> set ?fs" and "\<forall>h\<in>set ?fs. grid_timestamp h \<le> grid_timestamp g"
    by simp_all
  then show ?thesis by auto
qed

lemma asof_backward_None:
  "(asof_backward t grid_stream = None) = (\<forall>h\<in>set grid_stream. t < grid_timestamp h)"
  by (auto simp add: asof_backward_def filter_empty_conv split: list.splits)
     (metis filter_empty_conv list.distinct(1) not_le)

lemma generate_recommendations_append:
  "generate_recommendations (before @ after) grid_stream
   = generate_recommendations before grid_stream @ generate_recommendations after grid_stream"
  by (simp add: generate_recommendations_def)

text \<open>
  C1, as amended. Every device row yields one recommendation row, in the order of the
  device stream, with the device row's identifier, type, current, power and timestamp.
  That row is joined against a grid row whose timestamp is at or before the device
  row's and is the greatest such timestamp among the grid rows; when every grid row is
  later than the device row, the row carries the defaults. So a grid row later than the
  device row is never used: with grid rows at 10 and at 20, a device row at 15 joins
  against the row at 10.
\<close>

theorem join_is_backward_asof:
  "generate_recommendations (before @ d # after) grid_stream
     = generate_recommendations before grid_stream @ generate_recommendations [d] grid_stream
       @ generate_recommendations after grid_stream
   \<and> (\<exists>r. generate_recommendations [d] grid_stream = [r]
        \<and> rec_device_id r = dev_device_id d
        \<and> rec_device_type r = dev_device_type d
        \<and> rec_current r = dev_current d
        \<and> rec_power r = dev_power d
        \<and> rec_timestamp r = dev_timestamp d
        \<and> ((\<exists>g\<in>set grid_stream.
                grid_timestamp g \<le> dev_timestamp d
                \<and> (\<forall>h\<in>set grid_stream.
                      grid_timestamp h \<le> dev_timestamp d \<longrightarrow> grid_timestamp h \<le> grid_timestamp g)
                \<and> rec_carbon_intensity r = grid_carbon_intensity g
                \<and> rec_carbon_level r = grid_carbon_level g
                \<and> rec_pricing_tier r = grid_pricing_tier g
                \<and> rec_renewable_pct r = grid_renewable_pct g
                \<and> rec_electricity_price r = grid_electricity_price g)
             \<or> ((\<forall>h\<in>set grid_stream. dev_timestamp d < grid_timestamp h)
                \<and> rec_carbon_intensity r = 500
                \<and> rec_carbon_level r = ''MEDIUM''
                \<and> rec_pricing_tier r = ''MEDIUM''
                \<and> rec_renewable_pct r = 35
                \<and> rec_electricity_price r = to_double 0.15)))"
proof -
  define r where "r = hd (generate_recommendations [d] grid_stream)"
  let ?right = "asof_backward (dev_timestamp d) grid_stream"
  have single: "generate_recommendations [d] grid_stream = [r]"
    by (simp add: r_def generate_recommendations_def)
  have left: "rec_device_id r = dev_device_id d" "rec_device_type r = dev_device_type d"
    "rec_current r = dev_current d" "rec_power r = dev_power d"
    "rec_timestamp r = dev_timestamp d"
    by (simp_all add: r_def generate_recommendations_def Let_def)
  have right: "rec_carbon_intensity r = coalesce (map_option grid_carbon_intensity ?right) 500"
    "rec_carbon_level r = coalesce (map_option grid_carbon_level ?right) ''MEDIUM''"
    "rec_pricing_tier r = coalesce (map_option grid_pricing_tier ?right) ''MEDIUM''"
    "rec_renewable_pct r = coalesce (map_option grid_renewable_pct ?right) 35"
    "rec_electricity_price r
       = coalesce (map_option grid_electricity_price ?right) (to_double 0.15)"
    by (simp_all add: r_def generate_recommendations_def Let_def)
  have joined: "(\<exists>g\<in>set grid_stream.
                grid_timestamp g \<le> dev_timestamp d
                \<and> (\<forall>h\<in>set grid_stream.
                      grid_timestamp h \<le> dev_timestamp d \<longrightarrow> grid_timestamp h \<le> grid_timestamp g)
                \<and> rec_carbon_intensity r = grid_carbon_intensity g
                \<and> rec_carbon_level r = grid_carbon_level g
                \<and> rec_pricing_tier r = grid_pricing_tier g
                \<and> rec_renewable_pct r = grid_renewable_pct g
                \<and> rec_electricity_price r = grid_electricity_price g)
             \<or> ((\<forall>h\<in>set grid_stream. dev_timestamp d < grid_timestamp h)
                \<and> rec_carbon_intensity r = 500
                \<and> rec_carbon_level r = ''MEDIUM''
                \<and> rec_pricing_tier r = ''MEDIUM''
                \<and> rec_renewable_pct r = 35
                \<and> rec_electricity_price r = to_double 0.15)"
  proof (cases ?right)
    case None
    then have "\<forall>h\<in>set grid_stream. dev_timestamp d < grid_timestamp h"
      using asof_backward_None [of "dev_timestamp d" grid_stream] by simp
    with None right show ?thesis by (simp add: coalesce_def)
  next
    case (Some g)
    from asof_backward_Some [OF Some]
    have "g \<in> set grid_stream" "grid_timestamp g \<le> dev_timestamp d"
      "\<forall>h\<in>set grid_stream.
         grid_timestamp h \<le> dev_timestamp d \<longrightarrow> grid_timestamp h \<le> grid_timestamp g"
      by simp_all
    moreover from Some right
    have "rec_carbon_intensity r = grid_carbon_intensity g"
      "rec_carbon_level r = grid_carbon_level g"
      "rec_pricing_tier r = grid_pricing_tier g" "rec_renewable_pct r = grid_renewable_pct g"
      "rec_electricity_price r = grid_electricity_price g"
      by (simp_all add: coalesce_def)
    ultimately show ?thesis by blast
  qed
  have split: "generate_recommendations (before @ d # after) grid_stream
     = generate_recommendations before grid_stream @ generate_recommendations [d] grid_stream
       @ generate_recommendations after grid_stream"
    by (simp add: generate_recommendations_def)
  from single left joined have "\<exists>r. generate_recommendations [d] grid_stream = [r]
        \<and> rec_device_id r = dev_device_id d
        \<and> rec_device_type r = dev_device_type d
        \<and> rec_current r = dev_current d
        \<and> rec_power r = dev_power d
        \<and> rec_timestamp r = dev_timestamp d
        \<and> ((\<exists>g\<in>set grid_stream.
                grid_timestamp g \<le> dev_timestamp d
                \<and> (\<forall>h\<in>set grid_stream.
                      grid_timestamp h \<le> dev_timestamp d \<longrightarrow> grid_timestamp h \<le> grid_timestamp g)
                \<and> rec_carbon_intensity r = grid_carbon_intensity g
                \<and> rec_carbon_level r = grid_carbon_level g
                \<and> rec_pricing_tier r = grid_pricing_tier g
                \<and> rec_renewable_pct r = grid_renewable_pct g
                \<and> rec_electricity_price r = grid_electricity_price g)
             \<or> ((\<forall>h\<in>set grid_stream. dev_timestamp d < grid_timestamp h)
                \<and> rec_carbon_intensity r = 500
                \<and> rec_carbon_level r = ''MEDIUM''
                \<and> rec_pricing_tier r = ''MEDIUM''
                \<and> rec_renewable_pct r = 35
                \<and> rec_electricity_price r = to_double 0.15))"
    by (intro exI [of _ r] conjI)
  with split show ?thesis by (rule conjI)
qed

theorem join_is_backward_asof_witness:
  "map (\<lambda>r. (rec_device_id r, rec_timestamp r, rec_carbon_intensity r, rec_carbon_level r,
             rec_electricity_price r, rec_pricing_tier r, rec_renewable_pct r))
     (generate_recommendations
        [\<lparr>dev_device_id = ''HVAC_001'', dev_device_type = ''hvac'', dev_status = ''running'',
          dev_voltage = 230, dev_current = 3, dev_power = 600, dev_timestamp = 15\<rparr>,
         \<lparr>dev_device_id = ''PUMP_002'', dev_device_type = ''pump'', dev_status = ''running'',
          dev_voltage = 230, dev_current = 2, dev_power = 400, dev_timestamp = 5\<rparr>]
        [\<lparr>grid_carbon_intensity = 300, grid_carbon_level = ''LOW'', grid_electricity_price = 0.125,
          grid_pricing_tier = ''LOW'', grid_renewable_pct = 50, grid_timestamp = 10\<rparr>,
         \<lparr>grid_carbon_intensity = 700, grid_carbon_level = ''HIGH'', grid_electricity_price = 0.25,
          grid_pricing_tier = ''HIGH'', grid_renewable_pct = 20, grid_timestamp = 20\<rparr>])
   = [(''HVAC_001'', 15, 300, ''LOW'', 0.125, ''LOW'', 50),
      (''PUMP_002'', 5, 500, ''MEDIUM'', to_double 0.15, ''MEDIUM'', 35)]"
proof -
  let ?d = "\<lparr>dev_device_id = ''HVAC_001'', dev_device_type = ''hvac'', dev_status = ''running'',
          dev_voltage = 230, dev_current = 3, dev_power = 600, dev_timestamp = 15\<rparr>"
  let ?e = "\<lparr>dev_device_id = ''PUMP_002'', dev_device_type = ''pump'', dev_status = ''running'',
          dev_voltage = 230, dev_current = 2, dev_power = 400, dev_timestamp = 5\<rparr>"
  let ?g10 = "\<lparr>grid_carbon_intensity = 300, grid_carbon_level = ''LOW'',
          grid_electricity_price = 0.125, grid_pricing_tier = ''LOW'', grid_renewable_pct = 50,
          grid_timestamp = 10\<rparr>"
  let ?g20 = "\<lparr>grid_carbon_intensity = 700, grid_carbon_level = ''HIGH'',
          grid_electricity_price = 0.25, grid_pricing_tier = ''HIGH'', grid_renewable_pct = 20,
          grid_timestamp = 20\<rparr>"
  let ?view = "\<lambda>r. (rec_device_id r, rec_timestamp r, rec_carbon_intensity r, rec_carbon_level r,
             rec_electricity_price r, rec_pricing_tier r, rec_renewable_pct r)"
  have both: "generate_recommendations [?d, ?e] [?g10, ?g20]
      = generate_recommendations [?d] [?g10, ?g20] @ generate_recommendations [?e] [?g10, ?g20]"
    using join_is_backward_asof [of "[]" ?d "[?e]" "[?g10, ?g20]", THEN conjunct1]
    by (simp add: generate_recommendations_def)
  have first: "map ?view (generate_recommendations [?d] [?g10, ?g20])
      = [(''HVAC_001'', 15, 300, ''LOW'', 0.125, ''LOW'', 50)]"
    using join_is_backward_asof [of "[]" ?d "[]" "[?g10, ?g20]", THEN conjunct2]
    by auto
  have second: "map ?view (generate_recommendations [?e] [?g10, ?g20])
      = [(''PUMP_002'', 5, 500, ''MEDIUM'', to_double 0.15, ''MEDIUM'', 35)]"
    using join_is_backward_asof [of "[]" ?e "[]" "[?g10, ?g20]", THEN conjunct2]
    by auto
  show ?thesis
    unfolding both map_append first second by simp
qed

text \<open>
  C1 as stated fails: with a grid row at 10 followed by a grid row at 20, the device row
  at 15 is joined against the row at 10, not against the latest known row at 20.
\<close>

theorem join_latest_known_counterexample:
  "asof_backward 15
     [\<lparr>grid_carbon_intensity = 300, grid_carbon_level = ''LOW'', grid_electricity_price = 0.125,
       grid_pricing_tier = ''LOW'', grid_renewable_pct = 50, grid_timestamp = 10\<rparr>,
      \<lparr>grid_carbon_intensity = 700, grid_carbon_level = ''HIGH'', grid_electricity_price = 0.25,
       grid_pricing_tier = ''HIGH'', grid_renewable_pct = 20, grid_timestamp = 20\<rparr>]
   = Some \<lparr>grid_carbon_intensity = 300, grid_carbon_level = ''LOW'', grid_electricity_price = 0.125,
       grid_pricing_tier = ''LOW'', grid_renewable_pct = 50, grid_timestamp = 10\<rparr>
   \<and> map (\<lambda>r. (rec_carbon_intensity r, rec_carbon_level r, rec_electricity_price r,
             rec_pricing_tier r, rec_renewable_pct r))
     (generate_recommendations
        [\<lparr>dev_device_id = ''HVAC_001'', dev_device_type = ''hvac'', dev_status = ''running'',
          dev_voltage = 230, dev_current = 3, dev_power = 600, dev_timestamp = 15\<rparr>]
        [\<lparr>grid_carbon_intensity = 300, grid_carbon_level = ''LOW'', grid_electricity_price = 0.125,
          grid_pricing_tier = ''LOW'', grid_renewable_pct = 50, grid_timestamp = 10\<rparr>,
         \<lparr>grid_carbon_intensity = 700, grid_carbon_level = ''HIGH'', grid_electricity_price = 0.25,
          grid_pricing_tier = ''HIGH'', grid_renewable_pct = 20, grid_timestamp = 20\<rparr>])
     = [(300, ''LOW'', 0.125, ''LOW'', 50)]
   \<and> map (\<lambda>r. (rec_carbon_intensity r, rec_carbon_level r, rec_electricity_price r,
             rec_pricing_tier r, rec_renewable_pct r))
     (generate_recommendations
        [\<lparr>dev_device_id = ''HVAC_001'', dev_device_type = ''hvac'', dev_status = ''running'',
          dev_voltage = 230, dev_current = 3, dev_power = 600, dev_timestamp = 15\<rparr>]
        [\<lparr>grid_carbon_intensity = 300, grid_carbon_level = ''LOW'', grid_electricity_price = 0.125,
          grid_pricing_tier = ''LOW'', grid_renewable_pct = 50, grid_timestamp = 10\<rparr>,
         \<lparr>grid_carbon_intensity = 700, grid_carbon_level = ''HIGH'', grid_electricity_price = 0.25,
          grid_pricing_tier = ''HIGH'', grid_renewable_pct = 20, grid_timestamp = 20\<rparr>])
     \<noteq> [(700, ''HIGH'', 0.25, ''HIGH'', 20)]"
  by (simp add: generate_recommendations_def asof_backward_def coalesce_def Let_def)

text \<open>
  C5. With no grid row at all, every device row yields one recommendation row, in the
  order of the device stream, and that row carries carbon intensity 500.0, carbon level
  "MEDIUM", electricity price 0.15, pricing tier "MEDIUM", renewable share 35.0 and the
  cost per hour \<open>round(power / 1000 * electricity_price, 4)\<close>. For a power of 800 this
  cost is 0.12, and for a power of 25 it is 0.0037, the product being the float just
  below 0.00375. Here 0.15, 0.12 and 0.0037 are the floats of these literals, whose
  values are given.
\<close>

theorem join_defaults_before_any_grid_row:
  "generate_recommendations (before @ d # after) []
     = generate_recommendations before [] @ generate_recommendations [d] []
       @ generate_recommendations after []
   \<and> (\<exists>r. generate_recommendations [d] [] = [r]
        \<and> rec_device_id r = dev_device_id d
        \<and> rec_device_type r = dev_device_type d
        \<and> rec_current r = dev_current d
        \<and> rec_power r = dev_power d
        \<and> rec_timestamp r = dev_timestamp d
        \<and> rec_carbon_intensity r = 500.0
        \<and> rec_carbon_level r = ''MEDIUM''
        \<and> rec_electricity_price r = to_double 0.15
        \<and> rec_pricing_tier r = ''MEDIUM''
        \<and> rec_renewable_pct r = 35.0
        \<and> rec_cost_per_hour r
            = py_round (float_mul (float_div (rec_power r) 1000) (rec_electricity_price r)) 4
        \<and> (dev_power d = 800 \<longrightarrow> rec_cost_per_hour r = to_double 0.12)
        \<and> (dev_power d = 25 \<longrightarrow> rec_cost_per_hour r = to_double 0.0037))
   \<and> to_double 0.15 = 5404319552844595 / 2 ^ 55
   \<and> to_double 0.12 = 8646911284551352 / 2 ^ 56
   \<and> to_double 0.0037 = 8531619134090668 / 2 ^ 61"
proof -
  define r where "r = hd (generate_recommendations [d] [])"
  have single: "generate_recommendations [d] [] = [r]"
    by (simp add: r_def generate_recommendations_def)
  have left: "rec_device_id r = dev_device_id d" "rec_device_type r = dev_device_type d"
    "rec_current r = dev_current d" "rec_power r = dev_power d"
    "rec_timestamp r = dev_timestamp d"
    by (simp_all add: r_def generate_recommendations_def Let_def)
  have defaults: "rec_carbon_intensity r = 500.0" "rec_carbon_level r = ''MEDIUM''"
    "rec_electricity_price r = to_double 0.15" "rec_pricing_tier r = ''MEDIUM''"
    "rec_renewable_pct r = 35.0"
    by (simp_all add: r_def generate_recommendations_def asof_backward_def coalesce_def Let_def)
  have cost: "rec_cost_per_hour r
      = py_round (float_mul (float_div (rec_power r) 1000) (rec_electricity_price r)) 4"
    by (simp add: r_def generate_recommendations_def asof_backward_def coalesce_def Let_def)
  have c800: "dev_power d = 800 \<longrightarrow> rec_cost_per_hour r = to_double 0.12"
    using cost_800 by (simp add: cost left defaults)
  have c25: "dev_power d = 25 \<longrightarrow> rec_cost_per_hour r = to_double 0.0037"
    using cost_25 by (simp add: cost left defaults)
  have split: "generate_recommendations (before @ d # after) []
     = generate_recommendations before [] @ generate_recommendations [d] []
       @ generate_recommendations after []"
    by (simp add: generate_recommendations_def)
  from single left defaults cost c800 c25
  have "\<exists>r. generate_recommendations [d] [] = [r]
        \<and> rec_device_id r = dev_device_id d
        \<and> rec_device_type r = dev_device_type d
        \<and> rec_current r = dev_current d
        \<and> rec_power r = dev_power d
        \<and> rec_timestamp r = dev_timestamp d
        \<and> rec_carbon_intensity r = 500.0
        \<and> rec_carbon_level r = ''MEDIUM''
        \<and> rec_electricity_price r = to_double 0.15
        \<and> rec_pricing_tier r = ''MEDIUM''
        \<and> rec_renewable_pct r = 35.0
        \<and> rec_cost_per_hour r
            = py_round (float_mul (float_div (rec_power r) 1000) (rec_electricity_price r)) 4
        \<and> (dev_power d = 800 \<longrightarrow> rec_cost_per_hour r = to_double 0.12)
        \<and> (dev_power d = 25 \<longrightarrow> rec_cost_per_hour r = to_double 0.0037)"
    by (intro exI [of _ r] conjI)
  with split double_0_15 double_0_12 double_0_0037 show ?thesis
    by (intro conjI)
qed

theorem join_defaults_before_any_grid_row_witness:
  "map (\<lambda>r. (rec_device_id r, rec_power r, rec_carbon_intensity r, rec_carbon_level r,
             rec_electricity_price r, rec_pricing_tier r, rec_renewable_pct r,
             rec_cost_per_hour r))
     (generate_recommendations
        [\<lparr>dev_device_id = ''HVAC_001'', dev_device_type = ''hvac'', dev_status = ''running'',
          dev_voltage = 230, dev_current = 3.5, dev_power = 800, dev_timestamp = 15\<rparr>,
         \<lparr>dev_device_id = ''FAN_003'', dev_device_type = ''fan'', dev_status = ''running'',
          dev_voltage = 230, dev_current = 0.125, dev_power = 25, dev_timestamp = 15\<rparr>] [])
   = [(''HVAC_001'', 800, 500, ''MEDIUM'', 5404319552844595 / 2 ^ 55, ''MEDIUM'', 35,
       8646911284551352 / 2 ^ 56),
      (''FAN_003'', 25, 500, ''MEDIUM'', 5404319552844595 / 2 ^ 55, ''MEDIUM'', 35,
       8531619134090668 / 2 ^ 61)]"
proof -
  let ?d = "\<lparr>dev_device_id = ''HVAC_001'', dev_device_type = ''hvac'', dev_status = ''running'',
          dev_voltage = 230, dev_current = 3.5, dev_power = 800, dev_timestamp = 15\<rparr>"
  let ?e = "\<lparr>dev_device_id = ''FAN_003'', dev_device_type = ''fan'', dev_status = ''running'',
          dev_voltage = 230, dev_current = 0.125, dev_power = 25, dev_timestamp = 15\<rparr>"
  let ?view = "\<lambda>r. (rec_device_id r, rec_power r, rec_carbon_intensity r, rec_carbon_level r,
             rec_electricity_price r, rec_pricing_tier r, rec_renewable_pct r,
             rec_cost_per_hour r)"
  note inst_d = join_defaults_before_any_grid_row [of "[]" ?d "[?e]"]
  note inst_e = join_defaults_before_any_grid_row [of "[]" ?e "[]"]
  have both: "generate_recommendations [?d, ?e] []
      = generate_recommendations [?d] [] @ generate_recommendations [?e] []"
    using inst_d [THEN conjunct1] by (simp add: generate_recommendations_def)
  have first: "map ?view (generate_recommendations [?d] [])
      = [(''HVAC_001'', 800, 500, ''MEDIUM'', to_double 0.15, ''MEDIUM'', 35, to_double 0.12)]"
    using inst_d [THEN conjunct2, THEN conjunct1] by auto
  have second: "map ?view (generate_recommendations [?e] [])
      = [(''FAN_003'', 25, 500, ''MEDIUM'', to_double 0.15, ''MEDIUM'', 35, to_double 0.0037)]"
    using inst_e [THEN conjunct2, THEN conjunct1] by auto
  have floats: "to_double 0.15 = 5404319552844595 / 2 ^ 55"
    "to_double 0.12 = 8646911284551352 / 2 ^ 56"
    "to_double 0.0037 = 8531619134090668 / 2 ^ 61"
    using inst_d [THEN conjunct2, THEN conjunct2] by blast+
  show ?thesis
    unfolding both map_append first second floats by simp
qed

subsection \<open>Recommendation selection\<close>

lemma cost_600_at_quarter:
  "py_round (float_mul (float_div 600 1000) (1 / 4)) 4 = 5404319552844595 / 2 ^ 55"
proof -
  have prod: "float_mul (float_div 600 1000) (1 / 4) = 5404319552844595 / 2 ^ 55"
    unfolding double_600_div_1000 float_mul_def
    using to_double_eval [of "- 3" "5404319552844595 / 2 ^ 53 * (1 / 4)"]
    by (simp add: pow2_def round_half_even_def Let_def)
  have "py_round (5404319552844595 / 2 ^ 55) 4 = to_double 0.15"
    by (simp add: py_round_def round_half_even_def Let_def)
  then show ?thesis unfolding prod double_0_15 .
qed

lemma cost_350_at_quarter:
  "py_round (float_mul (float_div 350 1000) (1 / 4)) 4 = 6305039478318694 / 2 ^ 56"
proof -
  have prod: "float_mul (float_div 350 1000) (1 / 4) = 6305039478318694 / 2 ^ 56"
    unfolding double_350_div_1000 float_mul_def
    using to_double_eval [of "- 4" "6305039478318694 / 2 ^ 54 * (1 / 4)"]
    by (simp add: pow2_def round_half_even_def Let_def)
  have "py_round (6305039478318694 / 2 ^ 56) 4 = to_double 0.0875"
    by (simp add: py_round_def round_half_even_def Let_def)
  moreover have "to_double 0.0875 = 6305039478318694 / 2 ^ 56"
    using to_double_eval [of "- 4" "0.0875"]
    by (simp add: pow2_def round_half_even_def Let_def)
  ultimately show ?thesis unfolding prod by simp
qed

lemma carbon_350_at_650:
  "float_mul (float_div 350 1000) 650 = 8004444650209279 / 2 ^ 45"
  unfolding double_350_div_1000 float_mul_def
  using to_double_eval [of 7 "6305039478318694 / 2 ^ 54 * 650"]
  by (simp add: pow2_def round_half_even_def Let_def)

lemma carbon_600_at_700: "float_mul (float_div 600 1000) 700 = 420"
  unfolding double_600_div_1000 float_mul_def
  using to_double_eval [of 8 "5404319552844595 / 2 ^ 53 * 700"]
  by (simp add: pow2_def round_half_even_def Let_def)

text \<open>
  C4. The recommendation text of every enriched row is \<^verbatim>\<open>generate_llm_recommendation\<close>
  of that row's own identifier, type, power, current, carbon intensity, carbon level,
  electricity price, pricing tier, renewable share and cost per hour, in this order,
  one row for each device row. The function selects the text by first match over its
  rule table: (a) pricing tier HIGH and power above 500; (b) pricing tier HIGH and
  carbon level HIGH, whose text carries \<open>power / 1000 * carbon_intensity\<close>; (c) carbon
  level HIGH and power above 500; (d) pricing tier LOW and carbon level LOW; (e)
  renewable share above 70; (f) the fallback. With pricing tier HIGH, power 600 and
  carbon level HIGH the text is that of rule (a), which is not that of rule (b).
\<close>

theorem enriched_row_recommendation_priority:
  "(\<exists>r. generate_recommendations [d] grid_stream = [r]
        \<and> rec_device_id r = dev_device_id d
        \<and> rec_device_type r = dev_device_type d
        \<and> rec_power r = dev_power d
        \<and> rec_current r = dev_current d
        \<and> rec_recommendation r
            = generate_llm_recommendation (rec_device_id r) (rec_device_type r) (rec_power r)
                (rec_current r) (rec_carbon_intensity r) (rec_carbon_level r)
                (rec_electricity_price r) (rec_pricing_tier r) (rec_renewable_pct r)
                (rec_cost_per_hour r))
   \<and> generate_recommendations (before @ d # after) grid_stream
     = generate_recommendations before grid_stream @ generate_recommendations [d] grid_stream
       @ generate_recommendations after grid_stream
   \<and> (pricing_tier = ''HIGH'' \<and> pw > 500 \<longrightarrow>
      generate_llm_recommendation device_id device_type pw current carbon_intensity
          carbon_level electricity_price pricing_tier renewable_pct cost_per_hour
        = ''Grid Price is $'' @ fmt_fixed 3 electricity_price @ ''/kWh (High). Stopping ''
          @ device_id @ '' will save approx $'' @ fmt_fixed 2 cost_per_hour @ ''/hour.'')
   \<and> (\<not> (pricing_tier = ''HIGH'' \<and> pw > 500)
        \<and> pricing_tier = ''HIGH'' \<and> carbon_level = ''HIGH'' \<longrightarrow>
      generate_llm_recommendation device_id device_type pw current carbon_intensity
          carbon_level electricity_price pricing_tier renewable_pct cost_per_hour
        = ''Peak pricing ($'' @ fmt_fixed 3 electricity_price @ ''/kWh) + High carbon (''
          @ fmt_fixed 0 carbon_intensity @ ''gCO2/kWh). Reducing '' @ device_id
          @ '' saves $'' @ fmt_fixed 2 cost_per_hour @ ''/hr and ''
          @ fmt_fixed 0 (float_mul (float_div pw 1000) carbon_intensity) @ ''g CO2/hr.'')
   \<and> (\<not> (pricing_tier = ''HIGH'' \<and> pw > 500)
        \<and> \<not> (pricing_tier = ''HIGH'' \<and> carbon_level = ''HIGH'')
        \<and> carbon_level = ''HIGH'' \<and> pw > 500 \<longrightarrow>
      generate_llm_recommendation device_id device_type pw current carbon_intensity
          carbon_level electricity_price pricing_tier renewable_pct cost_per_hour
        = ''Carbon intensity is '' @ fmt_fixed 0 carbon_intensity
          @ ''gCO2/kWh (High). Deferring '' @ device_id @ '' avoids ''
          @ fmt_fixed 0 (float_mul (float_div pw 1000) carbon_intensity) @ ''g CO2/hr.'')
   \<and> (\<not> (pricing_tier = ''HIGH'' \<and> pw > 500)
        \<and> \<not> (pricing_tier = ''HIGH'' \<and> carbon_level = ''HIGH'')
        \<and> \<not> (carbon_level = ''HIGH'' \<and> pw > 500)
        \<and> pricing_tier = ''LOW'' \<and> carbon_level = ''LOW'' \<longrightarrow>
      generate_llm_recommendation device_id device_type pw current carbon_intensity
          carbon_level electricity_price pricing_tier renewable_pct cost_per_hour
        = ''Optimal conditions: $'' @ fmt_fixed 3 electricity_price @ ''/kWh, ''
          @ fmt_fixed 0 renewable_pct @ ''% renewable. Good time to run '' @ device_id @ ''.'')
   \<and> (\<not> (pricing_tier = ''HIGH'' \<and> pw > 500)
        \<and> \<not> (pricing_tier = ''HIGH'' \<and> carbon_level = ''HIGH'')
        \<and> \<not> (carbon_level = ''HIGH'' \<and> pw > 500)
        \<and> \<not> (pricing_tier = ''LOW'' \<and> carbon_level = ''LOW'')
        \<and> renewable_pct > 70 \<longrightarrow>
      generate_llm_recommendation device_id device_type pw current carbon_intensity
          carbon_level electricity_price pricing_tier renewable_pct cost_per_hour
        = ''Grid is '' @ fmt_fixed 0 renewable_pct @ ''% renewable (Clean energy!). ''
          @ device_id @ '' running on mostly clean power.'')
   \<and> (\<not> (pricing_tier = ''HIGH'' \<and> pw > 500)
        \<and> \<not> (pricing_tier = ''HIGH'' \<and> carbon_level = ''HIGH'')
        \<and> \<not> (carbon_level = ''HIGH'' \<and> pw > 500)
        \<and> \<not> (pricing_tier = ''LOW'' \<and> carbon_level = ''LOW'')
        \<and> \<not> renewable_pct > 70 \<longrightarrow>
      generate_llm_recommendation device_id device_type pw current carbon_intensity
          carbon_level electricity_price pricing_tier renewable_pct cost_per_hour
        = device_id @ '' operating normally. Current cost: $'' @ fmt_fixed 2 cost_per_hour
          @ ''/hr at $'' @ fmt_fixed 3 electricity_price @ ''/kWh.'')
   \<and> generate_llm_recommendation device_id device_type 600 current carbon_intensity
          ''HIGH'' electricity_price ''HIGH'' renewable_pct cost_per_hour
        = ''Grid Price is $'' @ fmt_fixed 3 electricity_price @ ''/kWh (High). Stopping ''
          @ device_id @ '' will save approx $'' @ fmt_fixed 2 cost_per_hour @ ''/hour.''
   \<and> generate_llm_recommendation device_id device_type 600 current carbon_intensity
          ''HIGH'' electricity_price ''HIGH'' renewable_pct cost_per_hour
        \<noteq> ''Peak pricing ($'' @ fmt_fixed 3 electricity_price @ ''/kWh) + High carbon (''
          @ fmt_fixed 0 carbon_intensity @ ''gCO2/kWh). Reducing '' @ device_id
          @ '' saves $'' @ fmt_fixed 2 cost_per_hour @ ''/hr and ''
          @ fmt_fixed 0 (float_mul (float_div 600 1000) carbon_intensity) @ ''g CO2/hr.''"
proof -
  define r where "r = hd (generate_recommendations [d] grid_stream)"
  have single: "generate_recommendations [d] grid_stream = [r]"
    by (simp add: r_def generate_recommendations_def)
  have left: "rec_device_id r = dev_device_id d" "rec_device_type r = dev_device_type d"
    "rec_power r = dev_power d" "rec_current r = dev_current d"
    by (simp_all add: r_def generate_recommendations_def Let_def)
  have advice: "rec_recommendation r
      = generate_llm_recommendation (rec_device_id r) (rec_device_type r) (rec_power r)
          (rec_current r) (rec_carbon_intensity r) (rec_carbon_level r)
          (rec_electricity_price r) (rec_pricing_tier r) (rec_renewable_pct r)
          (rec_cost_per_hour r)"
    by (simp add: r_def generate_recommendations_def Let_def)
  from single left advice have link: "(\<exists>r. generate_recommendations [d] grid_stream = [r]
          \<and> rec_device_id r = dev_device_id d
          \<and> rec_device_type r = dev_device_type d
          \<and> rec_power r = dev_power d
          \<and> rec_current r = dev_current d
          \<and> rec_recommendation r
              = generate_llm_recommendation (rec_device_id r) (rec_device_type r) (rec_power r)
                  (rec_current r) (rec_carbon_intensity r) (rec_carbon_level r)
                  (rec_electricity_price r) (rec_pricing_tier r) (rec_renewable_pct r)
                  (rec_cost_per_hour r))"
    by (intro exI [of _ r] conjI)
  have split: "generate_recommendations (before @ d # after) grid_stream
     = generate_recommendations before grid_stream @ generate_recommendations [d] grid_stream
       @ generate_recommendations after grid_stream"
    by (simp add: generate_recommendations_def)
  have rules: "(pricing_tier = ''HIGH'' \<and> pw > 500 \<longrightarrow>
      generate_llm_recommendation device_id device_type pw current carbon_intensity
          carbon_level electricity_price pricing_tier renewable_pct cost_per_hour
        = ''Grid Price is $'' @ fmt_fixed 3 electricity_price @ ''/kWh (High). Stopping ''
          @ device_id @ '' will save approx $'' @ fmt_fixed 2 cost_per_hour @ ''/hour.'')
   \<and> (\<not> (pricing_tier = ''HIGH'' \<and> pw > 500)
        \<and> pricing_tier = ''HIGH'' \<and> carbon_level = ''HIGH'' \<longrightarrow>
      generate_llm_recommendation device_id device_type pw current carbon_intensity
          carbon_level electricity_price pricing_tier renewable_pct cost_per_hour
        = ''Peak pricing ($'' @ fmt_fixed 3 electricity_price @ ''/kWh) + High carbon (''
          @ fmt_fixed 0 carbon_intensity @ ''gCO2/kWh). Reducing '' @ device_id
          @ '' saves $'' @ fmt_fixed 2 cost_per_hour @ ''/hr and ''
          @ fmt_fixed 0 (float_mul (float_div pw 1000) carbon_intensity) @ ''g CO2/hr.'')
   \<and> (\<not> (pricing_tier = ''HIGH'' \<and> pw > 500)
        \<and> \<not> (pricing_tier = ''HIGH'' \<and> carbon_level = ''HIGH'')
        \<and> carbon_level = ''HIGH'' \<and> pw > 500 \<longrightarrow>
      generate_llm_recommendation device_id device_type pw current carbon_intensity
          carbon_level electricity_price pricing_tier renewable_pct cost_per_hour
        = ''Carbon intensity is '' @ fmt_fixed 0 carbon_intensity
          @ ''gCO2/kWh (High). Deferring '' @ device_id @ '' avoids ''
          @ fmt_fixed 0 (float_mul (float_div pw 1000) carbon_intensity) @ ''g CO2/hr.'')
   \<and> (\<not> (pricing_tier = ''HIGH'' \<and> pw > 500)
        \<and> \<not> (pricing_tier = ''HIGH'' \<and> carbon_level = ''HIGH'')
        \<and> \<not> (carbon_level = ''HIGH'' \<and> pw > 500)
        \<and> pricing_tier = ''LOW'' \<and> carbon_level = ''LOW'' \<longrightarrow>
      generate_llm_recommendation device_id device_type pw current carbon_intensity
          carbon_level electricity_price pricing_tier renewable_pct cost_per_hour
        = ''Optimal conditions: $'' @ fmt_fixed 3 electricity_price @ ''/kWh, ''
          @ fmt_fixed 0 renewable_pct @ ''% renewable. Good time to run '' @ device_id @ ''.'')
   \<and> (\<not> (pricing_tier = ''HIGH'' \<and> pw > 500)
        \<and> \<not> (pricing_tier = ''HIGH'' \<and> carbon_level = ''HIGH'')
        \<and> \<not> (carbon_level = ''HIGH'' \<and> pw > 500)
        \<and> \<not> (pricing_tier = ''LOW'' \<and> carbon_level = ''LOW'')
        \<and> renewable_pct > 70 \<longrightarrow>
      generate_llm_recommendation device_id device_type pw current carbon_intensity
          carbon_level electricity_price pricing_tier renewable_pct cost_per_hour
        = ''Grid is '' @ fmt_fixed 0 renewable_pct @ ''% renewable (Clean energy!). ''
          @ device_id @ '' running on mostly clean power.'')
   \<and> (\<not> (pricing_tier = ''HIGH'' \<and> pw > 500)
        \<and> \<not> (pricing_tier = ''HIGH'' \<and> carbon_level = ''HIGH'')
        \<and> \<not> (carbon_level = ''HIGH'' \<and> pw > 500)
        \<and> \<not> (pricing_tier = ''LOW'' \<and> carbon_level = ''LOW'')
        \<and> \<not> renewable_pct > 70 \<longrightarrow>
      generate_llm_recommendation device_id device_type pw current carbon_intensity
          carbon_level electricity_price pricing_tier renewable_pct cost_per_hour
        = device_id @ '' operating normally. Current cost: $'' @ fmt_fixed 2 cost_per_hour
          @ ''/hr at $'' @ fmt_fixed 3 electricity_price @ ''/kWh.'')
   \<and> generate_llm_recommendation device_id device_type 600 current carbon_intensity
          ''HIGH'' electricity_price ''HIGH'' renewable_pct cost_per_hour
        = ''Grid Price is $'' @ fmt_fixed 3 electricity_price @ ''/kWh (High). Stopping ''
          @ device_id @ '' will save approx $'' @ fmt_fixed 2 cost_per_hour @ ''/hour.''
   \<and> generate_llm_recommendation device_id device_type 600 current carbon_intensity
          ''HIGH'' electricity_price ''HIGH'' renewable_pct cost_per_hour
        \<noteq> ''Peak pricing ($'' @ fmt_fixed 3 electricity_price @ ''/kWh) + High carbon (''
          @ fmt_fixed 0 carbon_intensity @ ''gCO2/kWh). Reducing '' @ device_id
          @ '' saves $'' @ fmt_fixed 2 cost_per_hour @ ''/hr and ''
          @ fmt_fixed 0 (float_mul (float_div 600 1000) carbon_intensity) @ ''g CO2/hr.''"
    by (auto simp add: generate_llm_recommendation_def Let_def)
  show ?thesis by (rule conjI [OF link conjI [OF split rules]])
qed

theorem enriched_row_recommendation_priority_witness:
  "map rec_recommendation
     (generate_recommendations
        [\<lparr>dev_device_id = ''HVAC_001'', dev_device_type = ''hvac'', dev_status = ''running'',
          dev_voltage = 230, dev_current = 3, dev_power = 600, dev_timestamp = 15\<rparr>,
         \<lparr>dev_device_id = ''PUMP_002'', dev_device_type = ''pump'', dev_status = ''running'',
          dev_voltage = 230, dev_current = 2, dev_power = 350, dev_timestamp = 16\<rparr>]
        [\<lparr>grid_carbon_intensity = 650, grid_carbon_level = ''HIGH'', grid_electricity_price = 0.25,
          grid_pricing_tier = ''HIGH'', grid_renewable_pct = 20, grid_timestamp = 10\<rparr>])
   = [''Grid Price is $0.250/kWh (High). Stopping HVAC_001 will save approx $0.15/hour.'',
      ''Peak pricing ($0.250/kWh) + High carbon (650gCO2/kWh). Reducing PUMP_002 saves $0.09/hr and 227g CO2/hr.'']
   \<and> generate_llm_recommendation ''HVAC_001'' ''hvac'' 600 2.5 700 ''HIGH'' 0.125 ''MEDIUM'' 20 0.0625
     = ''Carbon intensity is 700gCO2/kWh (High). Deferring HVAC_001 avoids 420g CO2/hr.''
   \<and> generate_llm_recommendation ''HVAC_001'' ''hvac'' 600 2.5 200 ''LOW'' 0.125 ''LOW'' 80 0.0625
     = ''Optimal conditions: $0.125/kWh, 80% renewable. Good time to run HVAC_001.''
   \<and> generate_llm_recommendation ''HVAC_001'' ''hvac'' 600 2.5 200 ''LOW'' 0.125 ''MEDIUM'' 80 0.0625
     = ''Grid is 80% renewable (Clean energy!). HVAC_001 running on mostly clean power.''
   \<and> generate_llm_recommendation ''HVAC_001'' ''hvac'' 600 2.5 500 ''MEDIUM'' 0.125 ''MEDIUM'' 35 0.125
     = ''HVAC_001 operating normally. Current cost: $0.12/hr at $0.125/kWh.''"
proof -
  let ?d = "\<lparr>dev_device_id = ''HVAC_001'', dev_device_type = ''hvac'', dev_status = ''running'',
          dev_voltage = 230, dev_current = 3, dev_power = 600, dev_timestamp = 15\<rparr>"
  let ?e = "\<lparr>dev_device_id = ''PUMP_002'', dev_device_type = ''pump'', dev_status = ''running'',
          dev_voltage = 230, dev_current = 2, dev_power = 350, dev_timestamp = 16\<rparr>"
  let ?g = "\<lparr>grid_carbon_intensity = 650, grid_carbon_level = ''HIGH'',
          grid_electricity_price = 0.25, grid_pricing_tier = ''HIGH'', grid_renewable_pct = 20,
          grid_timestamp = 10\<rparr>"
  note inst_d = enriched_row_recommendation_priority
    [where d = ?d and grid_stream = "[?g]" and before = "[]" and after = "[?e]"
       and pricing_tier = "''HIGH''" and pw = 600 and device_id = "''HVAC_001''"
       and device_type = "''hvac''" and current = 3 and carbon_intensity = 650
       and carbon_level = "''HIGH''" and electricity_price = "0.25" and renewable_pct = 20
       and cost_per_hour = "5404319552844595 / 2 ^ 55"]
  note inst_e = enriched_row_recommendation_priority
    [where d = ?e and grid_stream = "[?g]" and before = "[]" and after = "[]"
       and pricing_tier = "''HIGH''" and pw = 350 and device_id = "''PUMP_002''"
       and device_type = "''pump''" and current = 2 and carbon_intensity = 650
       and carbon_level = "''HIGH''" and electricity_price = "0.25" and renewable_pct = 20
       and cost_per_hour = "6305039478318694 / 2 ^ 56"]
  have both: "generate_recommendations [?d, ?e] [?g]
      = generate_recommendations [?d] [?g] @ generate_recommendations [?e] [?g]"
    using inst_d [THEN conjunct2, THEN conjunct1] by (simp add: generate_recommendations_def)
  have first: "map rec_recommendation (generate_recommendations [?d] [?g])
      = [''Grid Price is $0.250/kWh (High). Stopping HVAC_001 will save approx $0.15/hour.'']"
  proof -
    from inst_d [THEN conjunct1] obtain r where r: "generate_recommendations [?d] [?g] = [r]"
      and advice: "rec_recommendation r
        = generate_llm_recommendation (rec_device_id r) (rec_device_type r) (rec_power r)
            (rec_current r) (rec_carbon_intensity r) (rec_carbon_level r)
            (rec_electricity_price r) (rec_pricing_tier r) (rec_renewable_pct r)
            (rec_cost_per_hour r)"
      by blast
    have fields: "rec_device_id r = ''HVAC_001''" "rec_device_type r = ''hvac''"
      "rec_power r = 600" "rec_current r = 3" "rec_carbon_intensity r = 650"
      "rec_carbon_level r = ''HIGH''" "rec_electricity_price r = 0.25"
      "rec_pricing_tier r = ''HIGH''" "rec_renewable_pct r = 20"
      "rec_cost_per_hour r = py_round (float_mul (float_div 600 1000) 0.25) 4"
      using r by (auto simp add: generate_recommendations_def asof_backward_def coalesce_def Let_def)
    have "generate_llm_recommendation ''HVAC_001'' ''hvac'' 600 3 650 ''HIGH'' 0.25 ''HIGH'' 20
          (5404319552844595 / 2 ^ 55)
        = ''Grid Price is $0.250/kWh (High). Stopping HVAC_001 will save approx $0.15/hour.''"
      using inst_d [THEN conjunct2, THEN conjunct2, THEN conjunct1]
      by (simp add: fmt_eval)
    with r advice show ?thesis
      by (simp add: fields cost_600_at_quarter)
  qed
  have second: "map rec_recommendation (generate_recommendations [?e] [?g])
      = [''Peak pricing ($0.250/kWh) + High carbon (650gCO2/kWh). Reducing PUMP_002 saves $0.09/hr and 227g CO2/hr.'']"
  proof -
    from inst_e [THEN conjunct1] obtain r where r: "generate_recommendations [?e] [?g] = [r]"
      and advice: "rec_recommendation r
        = generate_llm_recommendation (rec_device_id r) (rec_device_type r) (rec_power r)
            (rec_current r) (rec_carbon_intensity r) (rec_carbon_level r)
            (rec_electricity_price r) (rec_pricing_tier r) (rec_renewable_pct r)
            (rec_cost_per_hour r)"
      by blast
    have fields: "rec_device_id r = ''PUMP_002''" "rec_device_type r = ''pump''"
      "rec_power r = 350" "rec_current r = 2" "rec_carbon_intensity r = 650"
      "rec_carbon_level r = ''HIGH''" "rec_electricity_price r = 0.25"
      "rec_pricing_tier r = ''HIGH''" "rec_renewable_pct r = 20"
      "rec_cost_per_hour r = py_round (float_mul (float_div 350 1000) 0.25) 4"
      using r by (auto simp add: generate_recommendations_def asof_backward_def coalesce_def Let_def)
    have "generate_llm_recommendation ''PUMP_002'' ''pump'' 350 2 650 ''HIGH'' 0.25 ''HIGH'' 20
          (6305039478318694 / 2 ^ 56)
        = ''Peak pricing ($0.250/kWh) + High carbon (650gCO2/kWh). Reducing PUMP_002 saves $0.09/hr and 227g CO2/hr.''"
      using inst_e [THEN conjunct2, THEN conjunct2, THEN conjunct2, THEN conjunct1]
      unfolding carbon_350_at_650
      by (simp add: fmt_eval)
    with r advice show ?thesis
      by (simp add: fields cost_350_at_quarter)
  qed
  have rule_c:
    "generate_llm_recommendation ''HVAC_001'' ''hvac'' 600 2.5 700 ''HIGH'' 0.125 ''MEDIUM'' 20 0.0625
     = ''Carbon intensity is 700gCO2/kWh (High). Deferring HVAC_001 avoids 420g CO2/hr.''"
    using enriched_row_recommendation_priority
      [where pricing_tier = "''MEDIUM''" and pw = 600 and device_id = "''HVAC_001''"
         and device_type = "''hvac''" and current = "2.5" and carbon_intensity = 700
         and carbon_level = "''HIGH''" and electricity_price = "0.125" and renewable_pct = 20
         and cost_per_hour = "0.0625",
       THEN conjunct2, THEN conjunct2, THEN conjunct2, THEN conjunct2, THEN conjunct1]
    unfolding carbon_600_at_700
    by (simp add: fmt_eval)
  have rule_d:
    "generate_llm_recommendation ''HVAC_001'' ''hvac'' 600 2.5 200 ''LOW'' 0.125 ''LOW'' 80 0.0625
     = ''Optimal conditions: $0.125/kWh, 80% renewable. Good time to run HVAC_001.''"
    using enriched_row_recommendation_priority
      [where pricing_tier = "''LOW''" and pw = 600 and device_id = "''HVAC_001''"
         and device_type = "''hvac''" and current = "2.5" and carbon_intensity = 200
         and carbon_level = "''LOW''" and electricity_price = "0.125" and renewable_pct = 80
         and cost_per_hour = "0.0625",
       THEN conjunct2, THEN conjunct2, THEN conjunct2, THEN conjunct2, THEN conjunct2,
       THEN conjunct1]
    by (simp add: fmt_eval)
  have rule_e:
    "generate_llm_recommendation ''HVAC_001'' ''hvac'' 600 2.5 200 ''LOW'' 0.125 ''MEDIUM'' 80 0.0625
     = ''Grid is 80% renewable (Clean energy!). HVAC_001 running on mostly clean power.''"
    using enriched_row_recommendation_priority
      [where pricing_tier = "''MEDIUM''" and pw = 600 and device_id = "''HVAC_001''"
         and device_type = "''hvac''" and current = "2.5" and carbon_intensity = 200
         and carbon_level = "''LOW''" and electricity_price = "0.125" and renewable_pct = 80
         and cost_per_hour = "0.0625",
       THEN conjunct2, THEN conjunct2, THEN conjunct2, THEN conjunct2, THEN conjunct2,
       THEN conjunct2, THEN conjunct1]
    by (simp add: fmt_eval)
  have rule_f:
    "generate_llm_recommendation ''HVAC_001'' ''hvac'' 600 2.5 500 ''MEDIUM'' 0.125 ''MEDIUM'' 35 0.125
     = ''HVAC_001 operating normally. Current cost: $0.12/hr at $0.125/kWh.''"
    using enriched_row_recommendation_priority
      [where pricing_tier = "''MEDIUM''" and pw = 600 and device_id = "''HVAC_001''"
         and device_type = "''hvac''" and current = "2.5" and carbon_intensity = 500
         and carbon_level = "''MEDIUM''" and electricity_price = "0.125" and renewable_pct = 35
         and cost_per_hour = "0.125",
       THEN conjunct2, THEN conjunct2, THEN conjunct2, THEN conjunct2, THEN conjunct2,
       THEN conjunct2, THEN conjunct2, THEN conjunct1]
    by (simp add: fmt_eval)
  have rows: "map rec_recommendation (generate_recommendations [?d, ?e] [?g])
   = [''Grid Price is $0.250/kWh (High). Stopping HVAC_001 will save approx $0.15/hour.'',
      ''Peak pricing ($0.250/kWh) + High carbon (650gCO2/kWh). Reducing PUMP_002 saves $0.09/hr and 227g CO2/hr.'']"
    unfolding both map_append first second by simp
  from rows rule_c rule_d rule_e rule_f show ?thesis by (intro conjI)
qed

subsection \<open>The aggregate\<close>

lemma reducers_max_Max: "xs \<noteq> [] \<Longrightarrow> reducers_max xs = Max (set xs)"
proof (cases xs)
  case Nil
  assume "xs \<noteq> []"
  with Nil show ?thesis by simp
next
  case (Cons a list)
  then show ?thesis
    using Max.set_eq_fold [of a list] by (simp add: reducers_max_def)
qed

text \<open>
  C2. When \<open>rows\<close> are the \<open>N\<close> rows of device type \<open>t\<close> in the device stream so far, in
  whatever way rows of other types are interleaved, and \<open>N > 0\<close>, the aggregate row of
  \<open>t\<close> has the mean of the \<open>N\<close> currents, the mean of the \<open>N\<close> powers, the maximum of the
  \<open>N\<close> currents and \<open>N\<close> as its sample count: every row of the history counts.
\<close>

theorem aggregate_is_mean_max_count:
  assumes "filter (\<lambda>r. dev_device_type r = t) device_stream = rows" and "rows \<noteq> []"
  shows "compute_statistics device_stream t =
     Some \<lparr>agg_device_type = t,
           avg_current = sum_list (map dev_current rows) / real (length rows),
           max_current = Max (set (map dev_current rows)),
           avg_power = sum_list (map dev_power rows) / real (length rows),
           total_samples = length rows\<rparr>"
  using assms
  by (simp add: compute_statistics_def reducers_avg_def reducers_count_def reducers_max_Max Let_def)

theorem aggregate_is_mean_max_count_witness:
  "compute_statistics
     [\<lparr>dev_device_id = ''M1'', dev_device_type = ''motor'', dev_status = ''running'',
       dev_voltage = 230, dev_current = 10, dev_power = 100, dev_timestamp = 1\<rparr>,
      \<lparr>dev_device_id = ''H1'', dev_device_type = ''hvac'', dev_status = ''running'',
       dev_voltage = 230, dev_current = 99, dev_power = 999, dev_timestamp = 1\<rparr>,
      \<lparr>dev_device_id = ''M2'', dev_device_type = ''motor'', dev_status = ''running'',
       dev_voltage = 230, dev_current = 40, dev_power = 500, dev_timestamp = 2\<rparr>,
      \<lparr>dev_device_id = ''M1'', dev_device_type = ''motor'', dev_status = ''running'',
       dev_voltage = 230, dev_current = 25, dev_power = 300, dev_timestamp = 3\<rparr>] ''motor''
   = Some \<lparr>agg_device_type = ''motor'', avg_current = 25, max_current = 40,
           avg_power = 300, total_samples = 3\<rparr>"
proof -
  let ?m1 = "\<lparr>dev_device_id = ''M1'', dev_device_type = ''motor'', dev_status = ''running'',
       dev_voltage = 230, dev_current = 10, dev_power = 100, dev_timestamp = 1\<rparr>"
  let ?h1 = "\<lparr>dev_device_id = ''H1'', dev_device_type = ''hvac'', dev_status = ''running'',
       dev_voltage = 230, dev_current = 99, dev_power = 999, dev_timestamp = 1\<rparr>"
  let ?m2 = "\<lparr>dev_device_id = ''M2'', dev_device_type = ''motor'', dev_status = ''running'',
       dev_voltage = 230, dev_current = 40, dev_power = 500, dev_timestamp = 2\<rparr>"
  let ?m3 = "\<lparr>dev_device_id = ''M1'', dev_device_type = ''motor'', dev_status = ''running'',
       dev_voltage = 230, dev_current = 25, dev_power = 300, dev_timestamp = 3\<rparr>"
  have f: "filter (\<lambda>r. dev_device_type r = ''motor'') [?m1, ?h1, ?m2, ?m3] = [?m1, ?m2, ?m3]"
    by simp
  have n: "[?m1, ?m2, ?m3] \<noteq> []" by simp
  show ?thesis
    using aggregate_is_mean_max_count [OF f n] by simp
qed

subsection \<open>The source adapters\<close>

lemma yielded_simps [simp]:
  "yielded [] = []"
  "yielded (Yield row # evs) = row # yielded evs"
  "yielded (Print e # evs) = yielded evs"
  "yielded (Sleep s # evs) = yielded evs"
  "yielded (evs @ evs') = yielded evs @ yielded evs'"
  by (simp_all add: yielded_def)

lemma printed_simps [simp]:
  "printed [] = []"
  "printed (Yield row # evs) = printed evs"
  "printed (Print e # evs) = e # printed evs"
  "printed (Sleep s # evs) = printed evs"
  "printed (evs @ evs') = printed evs @ printed evs'"
  by (simp_all add: printed_def)

lemma and_then_Inr:
  "(and_then m f = Inr y) = (\<exists>x. m = Inr x \<and> f x = Inr y)"
  by (cases m) (simp_all add: and_then_def)

lemma device_record_Inr:
  assumes "device_record B device_id telemetry timestamp = Inr row"
  shows "dev_device_id row = device_id \<and> py_float B timestamp = Inr (dev_timestamp row)"
  using assms unfolding device_record_def and_then_Inr by auto

lemma yield_devices_shape:
  "\<exists>rows. yield_devices B timestamp entries = map Yield rows
         \<or> (\<exists>e. yield_devices B timestamp entries = map Yield rows @ [Print e])"
proof (induction entries)
  case Nil
  then show ?case by simp
next
  case (Cons entry entries)
  obtain device_id telemetry where entry: "entry = (device_id, telemetry)"
    by (cases entry)
  show ?case
  proof (cases "device_record B device_id telemetry timestamp")
    case (Inl e)
    then have "yield_devices B timestamp (entry # entries) = map Yield [] @ [Print e]"
      by (simp add: entry)
    then show ?thesis by blast
  next
    case (Inr row)
    from Cons.IH obtain rows where
      "yield_devices B timestamp entries = map Yield rows
       \<or> (\<exists>e. yield_devices B timestamp entries = map Yield rows @ [Print e])"
      by blast
    then have "yield_devices B timestamp (entry # entries) = map Yield (row # rows)
       \<or> (\<exists>e. yield_devices B timestamp (entry # entries) = map Yield (row # rows) @ [Print e])"
      using Inr by (auto simp add: entry)
    then show ?thesis by blast
  qed
qed

lemma yield_devices_timestamp:
  "row \<in> set (yielded (yield_devices B timestamp entries))
   \<Longrightarrow> py_float B timestamp = Inr (dev_timestamp row)"
proof (induction entries)
  case Nil
  then show ?case by simp
next
  case (Cons entry entries)
  obtain device_id telemetry where entry: "entry = (device_id, telemetry)"
    by (cases entry)
  show ?case
  proof (cases "device_record B device_id telemetry timestamp")
    case (Inl e)
    with Cons.prems show ?thesis by (simp add: entry)
  next
    case (Inr first)
    with Cons.prems have "row = first \<or> row \<in> set (yielded (yield_devices B timestamp entries))"
      by (auto simp add: entry)
    then show ?thesis
      using device_record_Inr [OF Inr] Cons.IH by blast
  qed
qed

lemma yield_devices_ids:
  "map dev_device_id (yielded (yield_devices B timestamp entries))
   = take (length (yielded (yield_devices B timestamp entries))) (map fst entries)"
proof (induction entries)
  case Nil
  then show ?case by simp
next
  case (Cons entry entries)
  obtain device_id telemetry where entry: "entry = (device_id, telemetry)"
    by (cases entry)
  show ?case
  proof (cases "device_record B device_id telemetry timestamp")
    case (Inl e)
    then show ?thesis by (simp add: entry)
  next
    case (Inr first)
    then show ?thesis
      using device_record_Inr [OF Inr] Cons.IH by (simp add: entry)
  qed
qed

lemma yield_devices_complete:
  "printed (yield_devices B timestamp entries) = []
   \<Longrightarrow> length (yielded (yield_devices B timestamp entries)) = length entries"
proof (induction entries)
  case Nil
  then show ?case by simp
next
  case (Cons entry entries)
  obtain device_id telemetry where entry: "entry = (device_id, telemetry)"
    by (cases entry)
  show ?case
  proof (cases "device_record B device_id telemetry timestamp")
    case (Inl e)
    with Cons.prems show ?thesis by (simp add: entry)
  next
    case (Inr first)
    with Cons show ?thesis by (simp add: entry)
  qed
qed

lemma yield_devices_stops_at_failure:
  assumes "map (\<lambda>(device_id, telemetry). device_record B device_id telemetry timestamp) good
           = map Inr rows"
    and "device_record B device_id telemetry timestamp = Inl e"
  shows "yield_devices B timestamp (good @ (device_id, telemetry) # rest)
         = map Yield rows @ [Print e]"
  using assms
proof (induction good arbitrary: rows)
  case Nil
  then show ?case by simp
next
  case (Cons entry good)
  obtain k t where entry: "entry = (k, t)" by (cases entry)
  from Cons.prems(1) obtain row rows' where rows: "rows = row # rows'"
    and row: "device_record B k t timestamp = Inr row"
    and rest: "map (\<lambda>(device_id, telemetry). device_record B device_id telemetry timestamp) good
           = map Inr rows'"
    by (cases rows) (auto simp add: entry)
  from Cons.IH [OF rest Cons.prems(2)] row show ?case
    by (simp add: entry rows)
qed

lemma internal_generator_append:
  "internal_stream_generator B (before @ after)
   = internal_stream_generator B before @ internal_stream_generator B after"
  by (induction before) simp_all

lemma external_generator_append:
  "external_stream_generator B (before @ after)
   = external_stream_generator B before @ external_stream_generator B after"
  by (induction before) simp_all

lemma yield_devices_all:
  assumes "map (\<lambda>(device_id, telemetry). device_record B device_id telemetry timestamp) entries
           = map Inr rows"
  shows "yield_devices B timestamp entries = map Yield rows"
  using assms
proof (induction entries arbitrary: rows)
  case Nil
  then show ?case by simp
next
  case (Cons entry entries)
  obtain k t where entry: "entry = (k, t)" by (cases entry)
  from Cons.prems obtain row rows' where rows: "rows = row # rows'"
    and row: "device_record B k t timestamp = Inr row"
    and rest: "map (\<lambda>(device_id, telemetry). device_record B device_id telemetry timestamp)
           entries = map Inr rows'"
    by (cases rows) (auto simp add: entry)
  from Cons.IH [OF rest] row show ?case
    by (simp add: entry rows)
qed

lemma internal_poll_snapshot:
  assumes "fetch_internal_stream (fst p) = Inr (JObj snapshot)"
    and "(case map_of snapshot ''devices'' of None \<Rightarrow> JObj [] | Some v \<Rightarrow> v) = JObj entries"
  shows "internal_poll B p
         = yield_devices B (case map_of snapshot ''timestamp'' of None \<Rightarrow> JFloat (snd p) | Some v \<Rightarrow> v) entries
           @ [Sleep INTERNAL_POLL_INTERVAL]"
  using assms by (simp add: internal_poll_def py_get_def py_items_def and_then_def)

text \<open>
  C7, as amended. A poll that fails ends with one printed message and the sleep of the
  adapter's interval, and the generator goes on with the next poll as if the failure had
  not happened. A failed fetch yields no row. In the device adapter a telemetry entry
  with a missing or non-coercible field ends the poll at that entry: the rows of the
  entries before it in the snapshot have been yielded and stay, the entry and those
  after it are skipped. In the grid adapter any failure yields no row.
\<close>

theorem failed_poll_is_logged_and_retried:
  "(\<exists>rows. internal_poll B p = map Yield rows @ [Sleep INTERNAL_POLL_INTERVAL]
          \<or> (\<exists>e. internal_poll B p = map Yield rows @ [Print e, Sleep INTERNAL_POLL_INTERVAL]))
   \<and> (fetch_internal_stream (fst p) = Inl e \<longrightarrow>
        internal_poll B p = [Print e, Sleep INTERNAL_POLL_INTERVAL])
   \<and> (fetch_internal_stream (fst p) = Inr (JObj snapshot)
        \<and> (case map_of snapshot ''devices'' of None \<Rightarrow> JObj [] | Some v \<Rightarrow> v)
            = JObj (good @ (device_id, telemetry) # rest)
        \<and> map (\<lambda>(k, t). device_record B k t
                  (case map_of snapshot ''timestamp'' of None \<Rightarrow> JFloat (snd p) | Some v \<Rightarrow> v)) good
            = map Inr rows
        \<and> device_record B device_id telemetry
              (case map_of snapshot ''timestamp'' of None \<Rightarrow> JFloat (snd p) | Some v \<Rightarrow> v) = Inl e' \<longrightarrow>
        internal_poll B p = map Yield rows @ [Print e', Sleep INTERNAL_POLL_INTERVAL])
   \<and> (case and_then (fetch_external_stream outcome) (grid_record B) of
         Inl e \<Rightarrow> external_poll B outcome = [Print e, Sleep EXTERNAL_POLL_INTERVAL]
       | Inr row \<Rightarrow> external_poll B outcome = [Yield row, Sleep EXTERNAL_POLL_INTERVAL])
   \<and> internal_stream_generator B (polls @ p # later)
        = internal_stream_generator B polls @ internal_poll B p
          @ internal_stream_generator B later
   \<and> external_stream_generator B (outcomes @ outcome # later')
        = external_stream_generator B outcomes @ external_poll B outcome
          @ external_stream_generator B later'"
proof -
  have shape: "\<exists>rows. internal_poll B p = map Yield rows @ [Sleep INTERNAL_POLL_INTERVAL]
          \<or> (\<exists>e. internal_poll B p = map Yield rows @ [Print e, Sleep INTERNAL_POLL_INTERVAL])"
  proof -
    obtain body where body: "body =
       (case fetch_internal_stream (fst p) of
          Inl e \<Rightarrow> [Print e]
        | Inr data \<Rightarrow>
            (case py_get data ''timestamp'' (JFloat (snd p)) of
               Inl e \<Rightarrow> [Print e]
             | Inr timestamp \<Rightarrow>
                 (case and_then (py_get data ''devices'' (JObj [])) py_items of
                    Inl e \<Rightarrow> [Print e]
                  | Inr items \<Rightarrow> yield_devices B timestamp items)))"
      by blast
    have poll: "internal_poll B p = body @ [Sleep INTERNAL_POLL_INTERVAL]"
      by (simp add: internal_poll_def body)
    have "\<exists>rows. body = map Yield rows \<or> (\<exists>e. body = map Yield rows @ [Print e])"
    proof (cases "fetch_internal_stream (fst p)")
      case (Inl e)
      then have "body = map Yield [] @ [Print e]" by (simp add: body)
      then show ?thesis by blast
    next
      case data: (Inr data)
      show ?thesis
      proof (cases "py_get data ''timestamp'' (JFloat (snd p))")
        case (Inl e)
        with data have "body = map Yield [] @ [Print e]" by (simp add: body)
        then show ?thesis by blast
      next
        case ts: (Inr ts)
        show ?thesis
        proof (cases "and_then (py_get data ''devices'' (JObj [])) py_items")
          case (Inl e)
          with data ts have "body = map Yield [] @ [Print e]" by (simp add: body)
          then show ?thesis by blast
        next
          case (Inr items)
          with data ts have "body = yield_devices B ts items" by (simp add: body)
          then show ?thesis using yield_devices_shape [of B ts items] by simp
        qed
      qed
    qed
    then show ?thesis unfolding poll by auto
  qed
  have fetch: "fetch_internal_stream (fst p) = Inl e \<longrightarrow>
        internal_poll B p = [Print e, Sleep INTERNAL_POLL_INTERVAL]"
    by (simp add: internal_poll_def)
  have partial: "fetch_internal_stream (fst p) = Inr (JObj snapshot)
        \<and> (case map_of snapshot ''devices'' of None \<Rightarrow> JObj [] | Some v \<Rightarrow> v)
            = JObj (good @ (device_id, telemetry) # rest)
        \<and> map (\<lambda>(k, t). device_record B k t
                  (case map_of snapshot ''timestamp'' of None \<Rightarrow> JFloat (snd p) | Some v \<Rightarrow> v)) good
            = map Inr rows
        \<and> device_record B device_id telemetry
              (case map_of snapshot ''timestamp'' of None \<Rightarrow> JFloat (snd p) | Some v \<Rightarrow> v) = Inl e' \<longrightarrow>
        internal_poll B p = map Yield rows @ [Print e', Sleep INTERNAL_POLL_INTERVAL]"
  proof (intro impI, elim conjE)
    assume f: "fetch_internal_stream (fst p) = Inr (JObj snapshot)"
      and d: "(case map_of snapshot ''devices'' of None \<Rightarrow> JObj [] | Some v \<Rightarrow> v) = JObj (good @ (device_id, telemetry) # rest)"
      and g: "map (\<lambda>(k, t). device_record B k t (case map_of snapshot ''timestamp'' of None \<Rightarrow> JFloat (snd p) | Some v \<Rightarrow> v)) good = map Inr rows"
      and b: "device_record B device_id telemetry (case map_of snapshot ''timestamp'' of None \<Rightarrow> JFloat (snd p) | Some v \<Rightarrow> v) = Inl e'"
    show "internal_poll B p = map Yield rows @ [Print e', Sleep INTERNAL_POLL_INTERVAL]"
      unfolding internal_poll_snapshot [OF f d]
      using yield_devices_stops_at_failure [OF g b, of rest] by simp
  qed
  have ext: "case and_then (fetch_external_stream outcome) (grid_record B) of
         Inl e \<Rightarrow> external_poll B outcome = [Print e, Sleep EXTERNAL_POLL_INTERVAL]
       | Inr row \<Rightarrow> external_poll B outcome = [Yield row, Sleep EXTERNAL_POLL_INTERVAL]"
    by (simp add: external_poll_def split: sum.splits)
  have int_gen: "internal_stream_generator B (polls @ p # later)
        = internal_stream_generator B polls @ internal_poll B p
          @ internal_stream_generator B later"
    by (simp add: internal_generator_append)
  have ext_gen: "external_stream_generator B (outcomes @ outcome # later')
        = external_stream_generator B outcomes @ external_poll B outcome
          @ external_stream_generator B later'"
    by (simp add: external_generator_append)
  show ?thesis
    by (rule conjI [OF shape conjI [OF fetch conjI [OF partial conjI [OF ext
          conjI [OF int_gen ext_gen]]]]])
qed

lemmas adapter_eval =
  internal_poll_def external_poll_def fetch_internal_stream_def fetch_external_stream_def
  py_get_def py_items_def py_getitem_def py_float_def py_str_def and_then_def
  device_record_def grid_record_def to_double_numeral

theorem failed_poll_is_logged_and_retried_witness:
  "internal_stream_generator \<lparr>float_of_string = (\<lambda>s. None), repr = (\<lambda>v. [])\<rparr>
     [(Unreachable, 1),
      (Response 200 (Some (JObj [(''timestamp'', JFloat 2), (''devices'', JObj [
         (''M1'', JObj [(''device_type'', JStr ''motor''),
            (''status'', JStr ''running''),
            (''voltage'', JInt 230),
            (''current'', JFloat 10.5),
            (''power'', JInt 2300)]),
         (''M2'', JObj [(''device_type'', JStr ''motor''),
            (''status'', JStr ''running''),
            (''voltage'', JInt 230),
            (''current'', JFloat 10.5),
            (''power'', JInt (2 ^ 1024))])])])), 2),
      (Response 200 (Some (JObj [(''devices'', JObj [
         (''M1'', JObj [(''device_type'', JStr ''motor''),
            (''status'', JStr ''running''),
            (''voltage'', JInt 230),
            (''current'', JFloat 10.5),
            (''power'', JInt 2300)])])])), 3)]
   = [Print ConnectionError, Sleep INTERNAL_POLL_INTERVAL,
      Yield \<lparr>dev_device_id = ''M1'', dev_device_type = ''motor'', dev_status = ''running'',
             dev_voltage = 230, dev_current = 10.5, dev_power = 2300, dev_timestamp = 2\<rparr>,
      Print OverflowError, Sleep INTERNAL_POLL_INTERVAL,
      Yield \<lparr>dev_device_id = ''M1'', dev_device_type = ''motor'', dev_status = ''running'',
             dev_voltage = 230, dev_current = 10.5, dev_power = 2300, dev_timestamp = 3\<rparr>,
      Sleep INTERNAL_POLL_INTERVAL]
   \<and> external_stream_generator \<lparr>float_of_string = (\<lambda>s. None), repr = (\<lambda>v. [])\<rparr>
     [Response 503 None,
      Response 200 (Some (JObj [(''carbon_intensity'', JInt 300), (''carbon_level'', JStr ''LOW''),
         (''electricity_price'', JFloat 0.125), (''pricing_tier'', JStr ''LOW''),
         (''grid_renewable_percentage'', JFloat 50.5)])),
      Response 200 (Some (JObj [(''carbon_intensity'', JInt 300), (''carbon_level'', JStr ''LOW''),
         (''electricity_price'', JFloat 0.125), (''pricing_tier'', JStr ''LOW''),
         (''grid_renewable_percentage'', JFloat 50.5), (''last_updated'', JFloat 10)]))]
   = [Print (HTTPError 503), Sleep EXTERNAL_POLL_INTERVAL,
      Print (KeyError ''last_updated''), Sleep EXTERNAL_POLL_INTERVAL,
      Yield \<lparr>grid_carbon_intensity = 300, grid_carbon_level = ''LOW'',
             grid_electricity_price = 0.125, grid_pricing_tier = ''LOW'',
             grid_renewable_pct = 50.5, grid_timestamp = 10\<rparr>,
      Sleep EXTERNAL_POLL_INTERVAL]"
proof -
  let ?B = "\<lparr>float_of_string = (\<lambda>s. None), repr = (\<lambda>v. [])\<rparr>"
  let ?ok = "JObj [(''device_type'', JStr ''motor''),
            (''status'', JStr ''running''),
            (''voltage'', JInt 230),
            (''current'', JFloat 10.5),
            (''power'', JInt 2300)]"
  let ?big = "JObj [(''device_type'', JStr ''motor''),
            (''status'', JStr ''running''),
            (''voltage'', JInt 230),
            (''current'', JFloat 10.5),
            (''power'', JInt (2 ^ 1024))]"
  let ?snapshot = "[(''timestamp'', JFloat 2), (''devices'', JObj [(''M1'', ?ok), (''M2'', ?big)])]"
  let ?p1 = "(Unreachable, 1 :: real)"
  let ?p2 = "(Response 200 (Some (JObj ?snapshot)), 2 :: real)"
  let ?p3 = "(Response 200 (Some (JObj [(''devices'', JObj [(''M1'', ?ok)])])), 3 :: real)"
  let ?row = "\<lparr>dev_device_id = ''M1'', dev_device_type = ''motor'', dev_status = ''running'',
             dev_voltage = 230, dev_current = 10.5, dev_power = 2300, dev_timestamp = 2\<rparr>"
  let ?partial = "Response 200 (Some (JObj [(''carbon_intensity'', JInt 300), (''carbon_level'', JStr ''LOW''),
         (''electricity_price'', JFloat 0.125), (''pricing_tier'', JStr ''LOW''),
         (''grid_renewable_percentage'', JFloat 50.5)]))"
  let ?grid = "Response 200 (Some (JObj [(''carbon_intensity'', JInt 300), (''carbon_level'', JStr ''LOW''),
         (''electricity_price'', JFloat 0.125), (''pricing_tier'', JStr ''LOW''),
         (''grid_renewable_percentage'', JFloat 50.5), (''last_updated'', JFloat 10)]))"
  note inst = failed_poll_is_logged_and_retried
    [where B = ?B and p = ?p2 and snapshot = ?snapshot and good = "[(''M1'', ?ok)]"
       and device_id = "''M2''" and telemetry = ?big and rest = "[]" and rows = "[?row]"
       and e' = OverflowError and polls = "[?p1]" and later = "[?p3]"
       and outcome = ?partial and outcomes = "[Response 503 None]" and later' = "[?grid]"]
  have first: "internal_poll ?B ?p1 = [Print ConnectionError, Sleep INTERNAL_POLL_INTERVAL]"
    using failed_poll_is_logged_and_retried
      [where B = ?B and p = ?p1 and e = ConnectionError, THEN conjunct2, THEN conjunct1]
    by (simp add: fetch_internal_stream_def)
  have second: "internal_poll ?B ?p2
      = [Yield ?row, Print OverflowError, Sleep INTERNAL_POLL_INTERVAL]"
    using inst [THEN conjunct2, THEN conjunct2, THEN conjunct1]
    by (simp add: adapter_eval)
  have third: "internal_poll ?B ?p3
      = [Yield \<lparr>dev_device_id = ''M1'', dev_device_type = ''motor'', dev_status = ''running'',
             dev_voltage = 230, dev_current = 10.5, dev_power = 2300, dev_timestamp = 3\<rparr>,
         Sleep INTERNAL_POLL_INTERVAL]"
    by (simp add: adapter_eval)
  have int: "internal_stream_generator ?B [?p1, ?p2, ?p3]
      = internal_poll ?B ?p1 @ internal_poll ?B ?p2 @ internal_poll ?B ?p3"
    using inst [THEN conjunct2, THEN conjunct2, THEN conjunct2, THEN conjunct2, THEN conjunct1]
    by simp
  have ext: "external_stream_generator ?B [Response 503 None, ?partial, ?grid]
      = external_poll ?B (Response 503 None) @ external_poll ?B ?partial
        @ external_poll ?B ?grid"
    using inst [THEN conjunct2, THEN conjunct2, THEN conjunct2, THEN conjunct2, THEN conjunct2]
    by simp
  have middle: "external_poll ?B ?partial
      = [Print (KeyError ''last_updated''), Sleep EXTERNAL_POLL_INTERVAL]"
    using inst [THEN conjunct2, THEN conjunct2, THEN conjunct2, THEN conjunct1]
    by (simp add: adapter_eval)
  have outer: "external_poll ?B (Response 503 None)
      = [Print (HTTPError 503), Sleep EXTERNAL_POLL_INTERVAL]"
    "external_poll ?B ?grid
      = [Yield \<lparr>grid_carbon_intensity = 300, grid_carbon_level = ''LOW'',
             grid_electricity_price = 0.125, grid_pricing_tier = ''LOW'',
             grid_renewable_pct = 50.5, grid_timestamp = 10\<rparr>,
         Sleep EXTERNAL_POLL_INTERVAL]"
    by (simp_all add: adapter_eval)
  have "internal_stream_generator ?B [?p1, ?p2, ?p3]
      = [Print ConnectionError, Sleep INTERNAL_POLL_INTERVAL,
      Yield \<lparr>dev_device_id = ''M1'', dev_device_type = ''motor'', dev_status = ''running'',
             dev_voltage = 230, dev_current = 10.5, dev_power = 2300, dev_timestamp = 2\<rparr>,
      Print OverflowError, Sleep INTERNAL_POLL_INTERVAL,
      Yield \<lparr>dev_device_id = ''M1'', dev_device_type = ''motor'', dev_status = ''running'',
             dev_voltage = 230, dev_current = 10.5, dev_power = 2300, dev_timestamp = 3\<rparr>,
      Sleep INTERNAL_POLL_INTERVAL]"
    unfolding int first second third by simp
  moreover have "external_stream_generator ?B [Response 503 None, ?partial, ?grid]
      = [Print (HTTPError 503), Sleep EXTERNAL_POLL_INTERVAL,
      Print (KeyError ''last_updated''), Sleep EXTERNAL_POLL_INTERVAL,
      Yield \<lparr>grid_carbon_intensity = 300, grid_carbon_level = ''LOW'',
             grid_electricity_price = 0.125, grid_pricing_tier = ''LOW'',
             grid_renewable_pct = 50.5, grid_timestamp = 10\<rparr>,
      Sleep EXTERNAL_POLL_INTERVAL]"
    unfolding ext middle outer by simp
  ultimately show ?thesis by (rule conjI)
qed

text \<open>
  C7 as stated fails: the records of a failed poll are not all skipped. The second entry
  of this snapshot has no power, and the row of the first entry is yielded before the
  error is printed.
\<close>

theorem failed_poll_keeps_earlier_rows_counterexample:
  "internal_poll \<lparr>float_of_string = (\<lambda>s. None), repr = (\<lambda>v. [])\<rparr>
     (Response 200 (Some (JObj [(''timestamp'', JFloat 2), (''devices'', JObj [
         (''M1'', JObj [(''device_type'', JStr ''motor''),
            (''status'', JStr ''running''),
            (''voltage'', JFloat 230),
            (''current'', JFloat 10.5),
            (''power'', JFloat 2300)]),
         (''M2'', JObj [(''device_type'', JStr ''motor''),
            (''status'', JStr ''running''),
            (''voltage'', JFloat 230),
            (''current'', JFloat 10.5)])])])), 2)
   = [Yield \<lparr>dev_device_id = ''M1'', dev_device_type = ''motor'', dev_status = ''running'',
             dev_voltage = 230, dev_current = 10.5, dev_power = 2300, dev_timestamp = 2\<rparr>,
      Print (KeyError ''power''),
      Sleep INTERNAL_POLL_INTERVAL]"
  by (simp add: adapter_eval)

text \<open>
  C9, as amended. In a poll whose snapshot is an object with an object of devices, the
  timestamp of the poll is the snapshot's, or the clock reading when the snapshot has
  none. When every entry gives a row, the poll yields these rows, one for each entry
  in order, and sleeps. When an entry fails, the poll yields the rows of the entries
  before it, prints the error and sleeps. Every yielded row carries \<^verbatim>\<open>float\<close> of the
  timestamp of the poll, whatever timestamp its entry holds, and the identifier of its
  entry.
\<close>

theorem device_rows_carry_snapshot_timestamp:
  assumes "fetch_internal_stream (fst p) = Inr (JObj snapshot)"
    and "(case map_of snapshot ''devices'' of None \<Rightarrow> JObj [] | Some v \<Rightarrow> v) = JObj entries"
  shows "(map (\<lambda>(k, t). device_record B k t
                (case map_of snapshot ''timestamp'' of None \<Rightarrow> JFloat (snd p) | Some v \<Rightarrow> v)) entries
            = map Inr rows \<longrightarrow>
          internal_poll B p = map Yield rows @ [Sleep INTERNAL_POLL_INTERVAL])
    \<and> (entries = good @ (device_id, telemetry) # rest
        \<and> map (\<lambda>(k, t). device_record B k t
                  (case map_of snapshot ''timestamp'' of None \<Rightarrow> JFloat (snd p) | Some v \<Rightarrow> v)) good
            = map Inr rows'
        \<and> device_record B device_id telemetry
              (case map_of snapshot ''timestamp'' of None \<Rightarrow> JFloat (snd p) | Some v \<Rightarrow> v) = Inl e \<longrightarrow>
          internal_poll B p = map Yield rows' @ [Print e, Sleep INTERNAL_POLL_INTERVAL])
    \<and> (\<forall>row\<in>set (yielded (internal_poll B p)).
          py_float B (case map_of snapshot ''timestamp'' of None \<Rightarrow> JFloat (snd p) | Some v \<Rightarrow> v)
            = Inr (dev_timestamp row))
    \<and> map dev_device_id (yielded (internal_poll B p))
        = take (length (yielded (internal_poll B p))) (map fst entries)
    \<and> (printed (internal_poll B p) = [] \<longrightarrow>
          length (yielded (internal_poll B p)) = length entries)"
proof -
  let ?ts = "(case map_of snapshot ''timestamp'' of None \<Rightarrow> JFloat (snd p) | Some v \<Rightarrow> v)"
  have poll: "internal_poll B p = yield_devices B ?ts entries @ [Sleep INTERNAL_POLL_INTERVAL]"
    by (rule internal_poll_snapshot [OF assms])
  have every: "map (\<lambda>(k, t). device_record B k t ?ts) entries = map Inr rows \<longrightarrow>
          internal_poll B p = map Yield rows @ [Sleep INTERNAL_POLL_INTERVAL]"
    unfolding poll using yield_devices_all [of B ?ts entries rows] by simp
  have upto: "entries = good @ (device_id, telemetry) # rest
        \<and> map (\<lambda>(k, t). device_record B k t ?ts) good = map Inr rows'
        \<and> device_record B device_id telemetry ?ts = Inl e \<longrightarrow>
          internal_poll B p = map Yield rows' @ [Print e, Sleep INTERNAL_POLL_INTERVAL]"
    unfolding poll
    using yield_devices_stops_at_failure [of B ?ts good rows' device_id telemetry e rest]
    by auto
  have stamp: "\<forall>row\<in>set (yielded (internal_poll B p)).
          py_float B ?ts = Inr (dev_timestamp row)"
    unfolding poll using yield_devices_timestamp [of _ B ?ts entries] by simp
  have ids: "map dev_device_id (yielded (internal_poll B p))
        = take (length (yielded (internal_poll B p))) (map fst entries)"
    unfolding poll using yield_devices_ids [of B ?ts entries] by simp
  have complete: "printed (internal_poll B p) = [] \<longrightarrow>
          length (yielded (internal_poll B p)) = length entries"
    unfolding poll using yield_devices_complete [of B ?ts entries] by simp
  show ?thesis
    by (rule conjI [OF every conjI [OF upto conjI [OF stamp conjI [OF ids complete]]]])
qed

theorem device_rows_carry_snapshot_timestamp_witness:
  "internal_poll \<lparr>float_of_string = (\<lambda>s. None), repr = (\<lambda>v. [])\<rparr>
     (Response 200 (Some (JObj [(''timestamp'', JFloat 100), (''devices'', JObj [(''M1'', JObj [(''device_type'', JStr ''motor''),
            (''status'', JStr ''running''),
            (''voltage'', JFloat 230),
            (''current'', JFloat 10.5),
            (''power'', JFloat 2300),
            (''timestamp'', JFloat 50)]),
         (''M2'', JObj [(''device_type'', JStr ''motor''),
            (''status'', JStr ''running''),
            (''voltage'', JFloat 230),
            (''current'', JFloat 10.5),
            (''power'', JFloat 2300)]),
         (''M3'', JObj [(''device_type'', JStr ''motor''), (''voltage'', JFloat 230),
            (''current'', JFloat 10.5), (''power'', JFloat 2300)]),
         (''M4'', JObj [(''device_type'', JStr ''motor''),
            (''status'', JStr ''running''),
            (''voltage'', JFloat 230),
            (''current'', JFloat 10.5),
            (''power'', JFloat 2300)])])])), 7)
   = [Yield \<lparr>dev_device_id = ''M1'', dev_device_type = ''motor'', dev_status = ''running'',
             dev_voltage = 230, dev_current = 10.5, dev_power = 2300, dev_timestamp = 100\<rparr>,
      Yield \<lparr>dev_device_id = ''M2'', dev_device_type = ''motor'', dev_status = ''running'',
             dev_voltage = 230, dev_current = 10.5, dev_power = 2300, dev_timestamp = 100\<rparr>,
      Print (KeyError ''status''),
      Sleep INTERNAL_POLL_INTERVAL]"
proof -
  let ?B = "\<lparr>float_of_string = (\<lambda>s. None), repr = (\<lambda>v. [])\<rparr>"
  let ?own = "JObj [(''device_type'', JStr ''motor''),
            (''status'', JStr ''running''),
            (''voltage'', JFloat 230),
            (''current'', JFloat 10.5),
            (''power'', JFloat 2300),
            (''timestamp'', JFloat 50)]"
  let ?ok = "JObj [(''device_type'', JStr ''motor''),
            (''status'', JStr ''running''),
            (''voltage'', JFloat 230),
            (''current'', JFloat 10.5),
            (''power'', JFloat 2300)]"
  let ?nostatus = "JObj [(''device_type'', JStr ''motor''), (''voltage'', JFloat 230),
            (''current'', JFloat 10.5), (''power'', JFloat 2300)]"
  let ?entries = "[(''M1'', ?own), (''M2'', ?ok), (''M3'', ?nostatus), (''M4'', ?ok)]"
  let ?snapshot = "[(''timestamp'', JFloat 100), (''devices'', JObj ?entries)]"
  let ?p = "(Response 200 (Some (JObj ?snapshot)), 7 :: real)"
  let ?rows = "[\<lparr>dev_device_id = ''M1'', dev_device_type = ''motor'', dev_status = ''running'',
             dev_voltage = 230, dev_current = 10.5, dev_power = 2300, dev_timestamp = 100\<rparr>,
         \<lparr>dev_device_id = ''M2'', dev_device_type = ''motor'', dev_status = ''running'',
             dev_voltage = 230, dev_current = 10.5, dev_power = 2300, dev_timestamp = 100\<rparr>]"
  have h1: "fetch_internal_stream (fst ?p) = Inr (JObj ?snapshot)"
    by (simp add: fetch_internal_stream_def)
  have h2: "(case map_of ?snapshot ''devices'' of None \<Rightarrow> JObj [] | Some v \<Rightarrow> v) = JObj ?entries"
    by simp
  note inst = device_rows_carry_snapshot_timestamp
    [OF h1 h2, where B = ?B and good = "[(''M1'', ?own), (''M2'', ?ok)]"
       and device_id = "''M3''" and telemetry = ?nostatus and rest = "[(''M4'', ?ok)]"
       and rows' = ?rows and e = "KeyError ''status''"]
  have "internal_poll ?B ?p = map Yield ?rows @ [Print (KeyError ''status''), Sleep INTERNAL_POLL_INTERVAL]"
    using inst [THEN conjunct2, THEN conjunct1]
    by (simp add: adapter_eval)
  then show ?thesis by simp
qed

text \<open>
  C9 as stated fails: an entry that carries its own timestamp 50 in a snapshot of
  timestamp 100 is yielded with timestamp 100.
\<close>

theorem entry_timestamp_is_ignored_counterexample:
  "map dev_timestamp
     (yielded (internal_poll \<lparr>float_of_string = (\<lambda>s. None), repr = (\<lambda>v. [])\<rparr>
       (Response 200 (Some (JObj [(''timestamp'', JFloat 100), (''devices'', JObj [
         (''M1'', JObj [(''device_type'', JStr ''motor''),
            (''status'', JStr ''running''),
            (''voltage'', JFloat 230),
            (''current'', JFloat 10.5),
            (''power'', JFloat 2300),
            (''timestamp'', JFloat 50)])])])), 7)))
   = [100]
   \<and> map dev_timestamp
     (yielded (internal_poll \<lparr>float_of_string = (\<lambda>s. None), repr = (\<lambda>v. [])\<rparr>
       (Response 200 (Some (JObj [(''timestamp'', JFloat 100), (''devices'', JObj [
         (''M1'', JObj [(''device_type'', JStr ''motor''),
            (''status'', JStr ''running''),
            (''voltage'', JFloat 230),
            (''current'', JFloat 10.5),
            (''power'', JFloat 2300),
            (''timestamp'', JFloat 50)])])])), 7)))
   \<noteq> [50]"
  by (simp add: adapter_eval)

subsection \<open>The changelog of the statistics view\<close>

lemma ingest_all_snoc:
  "ingest_all (device_stream @ [row]) =
     (fst (ingest (fst (ingest_all device_stream)) row),
      snd (ingest_all device_stream) @ snd (ingest (fst (ingest_all device_stream)) row))"
  by (simp add: ingest_all_def case_prod_beta Let_def)

lemma ingest_all_Nil: "ingest_all [] = (Map.empty, [])"
  by (simp add: ingest_all_def)

lemma running_state:
  "fst (ingest_all device_stream) key =
     (let grp = filter (\<lambda>this. dev_device_type this = key) device_stream
      in if grp = [] then None
         else Some \<lparr>sum_current = sum_list (map dev_current grp),
                    sum_power = sum_list (map dev_power grp),
                    sample_count = length grp,
                    running_max = Max (set (map dev_current grp))\<rparr>)"
proof (induction device_stream rule: rev_induct)
  case Nil
  then show ?case by (simp add: ingest_all_Nil)
next
  case (snoc row device_stream)
  show ?case
  proof (cases "dev_device_type row = key")
    case False
    with snoc show ?thesis
      by (simp add: ingest_all_snoc ingest_def Let_def)
  next
    case True
    show ?thesis
    proof (cases "filter (\<lambda>this. dev_device_type this = key) device_stream = []")
      case empty: True
      with snoc True show ?thesis
        by (simp add: ingest_all_snoc ingest_def Let_def)
    next
      case nonempty: False
      then have "set (map dev_current (filter (\<lambda>this. dev_device_type this = key) device_stream)) \<noteq> {}"
        by (auto simp add: filter_empty_conv)
      then have "Max (insert (dev_current row)
            (set (map dev_current (filter (\<lambda>this. dev_device_type this = key) device_stream))))
          = max (Max (set (map dev_current (filter (\<lambda>this. dev_device_type this = key) device_stream))))
              (dev_current row)"
        by (simp add: max.commute)
      with snoc True nonempty show ?thesis
        by (simp add: ingest_all_snoc ingest_def Let_def)
    qed
  qed
qed

lemma compute_statistics_running:
  "compute_statistics device_stream key =
     map_option (aggregate_row key) (fst (ingest_all device_stream) key)"
  by (simp add: running_state compute_statistics_def aggregate_row_def Let_def
      reducers_avg_def reducers_count_def reducers_max_Max)

lemma compute_statistics_key:
  "compute_statistics device_stream key = Some a \<Longrightarrow> agg_device_type a = key"
  by (auto simp add: compute_statistics_def Let_def split: if_splits)

lemma compute_statistics_other:
  "dev_device_type row \<noteq> key \<Longrightarrow>
   compute_statistics (device_stream @ [row]) key = compute_statistics device_stream key"
  by (simp add: compute_statistics_def)

lemma compute_statistics_None:
  "(compute_statistics device_stream key = None) = (key \<notin> dev_device_type ` set device_stream)"
  by (auto simp add: compute_statistics_def Let_def filter_empty_conv)

lemma changelog_step:
  "device_stats_changelog (device_stream @ [row]) =
     device_stats_changelog device_stream
     @ (case compute_statistics device_stream (dev_device_type row) of
          None \<Rightarrow> [] | Some old \<Rightarrow> [(old, - 1)])
     @ (case compute_statistics (device_stream @ [row]) (dev_device_type row) of
          None \<Rightarrow> [] | Some new \<Rightarrow> [(new, 1)])"
proof -
  have new: "fst (ingest_all (device_stream @ [row])) (dev_device_type row)
      = Some (the (fst (ingest (fst (ingest_all device_stream)) row) (dev_device_type row)))"
    by (simp add: ingest_all_snoc ingest_def Let_def)
  show ?thesis
    unfolding compute_statistics_running new
    by (cases "fst (ingest_all device_stream) (dev_device_type row)")
       (simp_all add: device_stats_changelog_def ingest_all_snoc ingest_def Let_def)
qed

lemma cumulative_diff_append:
  "cumulative_diff (xs @ ys) r = cumulative_diff xs r + cumulative_diff ys r"
  by (simp add: cumulative_diff_def)

lemma key_diff_append: "key_diff (xs @ ys) key = key_diff xs key + key_diff ys key"
  by (simp add: key_diff_def)

lemma cumulative_diff_changelog:
  "cumulative_diff (device_stats_changelog device_stream) r =
     (if compute_statistics device_stream (agg_device_type r) = Some r then 1 else 0)"
proof (induction device_stream rule: rev_induct)
  case Nil
  then show ?case
    by (simp add: device_stats_changelog_def ingest_all_Nil cumulative_diff_def
        compute_statistics_def)
next
  case (snoc row device_stream)
  let ?k = "dev_device_type row"
  obtain new where new: "compute_statistics (device_stream @ [row]) ?k = Some new"
    using compute_statistics_None [of "device_stream @ [row]" ?k] by auto
  show ?case
  proof (cases "agg_device_type r = ?k")
    case False
    then have "new \<noteq> r" using compute_statistics_key [OF new] by auto
    moreover have "compute_statistics device_stream ?k \<noteq> Some r"
      using compute_statistics_key [of device_stream ?k r] False by auto
    ultimately show ?thesis
      using snoc False new
      by (simp add: changelog_step cumulative_diff_append compute_statistics_other)
         (simp add: cumulative_diff_def split: option.splits)
  next
    case True
    with snoc new show ?thesis
      by (simp add: changelog_step cumulative_diff_append)
         (auto simp add: cumulative_diff_def split: option.splits)
  qed
qed

lemma key_diff_changelog:
  "key_diff (device_stats_changelog device_stream) key =
     (if key \<in> dev_device_type ` set device_stream then 1 else 0)"
proof (induction device_stream rule: rev_induct)
  case Nil
  then show ?case
    by (simp add: device_stats_changelog_def ingest_all_Nil key_diff_def)
next
  case (snoc row device_stream)
  let ?k = "dev_device_type row"
  obtain new where new: "compute_statistics (device_stream @ [row]) ?k = Some new"
    using compute_statistics_None [of "device_stream @ [row]" ?k] by auto
  have newk: "agg_device_type new = ?k" by (rule compute_statistics_key [OF new])
  show ?case
  proof (cases "compute_statistics device_stream ?k")
    case None
    then have "?k \<notin> dev_device_type ` set device_stream"
      by (simp add: compute_statistics_None)
    with snoc None new newk show ?thesis
      by (auto simp add: changelog_step key_diff_append) (auto simp add: key_diff_def)
  next
    case (Some old)
    then have "?k \<in> dev_device_type ` set device_stream"
      using compute_statistics_None [of device_stream ?k] by auto
    moreover have "agg_device_type old = ?k" by (rule compute_statistics_key [OF Some])
    ultimately show ?thesis
      using snoc Some new newk
      by (auto simp add: changelog_step key_diff_append) (auto simp add: key_diff_def)
  qed
qed

lemma current_row_in_changelog:
  "compute_statistics device_stream key = Some a \<Longrightarrow>
   (a, 1) \<in> set (device_stats_changelog device_stream)"
proof (induction device_stream rule: rev_induct)
  case Nil
  then show ?case by (simp add: compute_statistics_def)
next
  case (snoc row device_stream)
  show ?case
  proof (cases "dev_device_type row = key")
    case True
    with snoc.prems show ?thesis by (simp add: changelog_step)
  next
    case False
    with snoc show ?thesis
      by (simp add: changelog_step compute_statistics_other)
  qed
qed

lemma distinct_in_singleton:
  assumes "distinct xs" and "set xs \<subseteq> {a}"
  shows "xs = (if a \<in> set xs then [a] else [])"
proof (cases xs)
  case Nil
  then show ?thesis by simp
next
  case (Cons x ys)
  with assms have x: "x = a" and "a \<notin> set ys" and "set ys \<subseteq> {a}" by auto
  then have "ys = []" by (cases ys) auto
  with Cons x show ?thesis by simp
qed

lemma live_rows_changelog:
  "live_rows (device_stats_changelog device_stream) key =
     (case compute_statistics device_stream key of None \<Rightarrow> [] | Some a \<Rightarrow> [a])"
proof -
  let ?cl = "device_stats_changelog device_stream"
  have pred: "(agg_device_type r = key \<and> 0 < cumulative_diff ?cl r)
      = (compute_statistics device_stream key = Some r)" for r
    using compute_statistics_key [of device_stream key r]
    by (auto simp add: cumulative_diff_changelog)
  have live: "live_rows ?cl key
      = remdups (filter (\<lambda>r. compute_statistics device_stream key = Some r) (map fst ?cl))"
    by (simp add: live_rows_def pred)
  show ?thesis
  proof (cases "compute_statistics device_stream key")
    case None
    then show ?thesis by (simp add: live)
  next
    case (Some a)
    have "a \<in> set (live_rows ?cl key)"
      using current_row_in_changelog [OF Some] Some by (force simp add: live)
    moreover have "set (live_rows ?cl key) \<subseteq> {a}"
      using Some by (auto simp add: live)
    moreover have "distinct (live_rows ?cl key)"
      by (simp add: live)
    ultimately show ?thesis
      using distinct_in_singleton [of "live_rows ?cl key" a] Some by simp
  qed
qed

text \<open>
  C8. Replaying the changelog that the ingests of any device stream emit gives, for each
  device type, at most one live row: none for a type without a row so far, and
  otherwise exactly the aggregate row that the statistics pipeline computes for the
  type; the \<open>diff\<close>s of a type sum to 1 once it has a row. Each ingest appends, for the
  row's type, the retraction of the aggregate row so far immediately followed by the
  insertion of the new one, and only the insertion when the type had no row.
\<close>

theorem device_stats_one_live_row_per_type:
  "live_rows (device_stats_changelog device_stream) key
     = (case compute_statistics device_stream key of None \<Rightarrow> [] | Some a \<Rightarrow> [a])
   \<and> length (live_rows (device_stats_changelog device_stream) key) \<le> 1
   \<and> key_diff (device_stats_changelog device_stream) key
     = (if key \<in> dev_device_type ` set device_stream then 1 else 0)
   \<and> device_stats_changelog (device_stream @ [row])
     = device_stats_changelog device_stream
       @ (case compute_statistics device_stream (dev_device_type row) of
            None \<Rightarrow> [] | Some old \<Rightarrow> [(old, - 1)])
       @ (case compute_statistics (device_stream @ [row]) (dev_device_type row) of
            None \<Rightarrow> [] | Some new \<Rightarrow> [(new, 1)])
   \<and> compute_statistics (device_stream @ [row]) (dev_device_type row) \<noteq> None"
proof -
  have "length (live_rows (device_stats_changelog device_stream) key) \<le> 1"
    by (simp add: live_rows_changelog split: option.splits)
  moreover have "compute_statistics (device_stream @ [row]) (dev_device_type row) \<noteq> None"
    by (simp add: compute_statistics_None)
  ultimately show ?thesis
    using live_rows_changelog [of device_stream key] key_diff_changelog [of device_stream key]
      changelog_step [of device_stream row]
    by blast
qed

lemmas stats_eval =
  compute_statistics_def reducers_avg_def reducers_max_def reducers_count_def Let_def

theorem device_stats_one_live_row_per_type_witness:
  "device_stats_changelog
     [\<lparr>dev_device_id = ''M1'', dev_device_type = ''motor'', dev_status = ''running'',
       dev_voltage = 230, dev_current = 10, dev_power = 100, dev_timestamp = 1\<rparr>,
      \<lparr>dev_device_id = ''M2'', dev_device_type = ''motor'', dev_status = ''running'',
       dev_voltage = 230, dev_current = 40, dev_power = 500, dev_timestamp = 2\<rparr>]
   = [(\<lparr>agg_device_type = ''motor'', avg_current = 10, max_current = 10,
         avg_power = 100, total_samples = 1\<rparr>, 1),
      (\<lparr>agg_device_type = ''motor'', avg_current = 10, max_current = 10,
         avg_power = 100, total_samples = 1\<rparr>, - 1),
      (\<lparr>agg_device_type = ''motor'', avg_current = 25, max_current = 40,
         avg_power = 300, total_samples = 2\<rparr>, 1)]
   \<and> live_rows (device_stats_changelog
     [\<lparr>dev_device_id = ''M1'', dev_device_type = ''motor'', dev_status = ''running'',
       dev_voltage = 230, dev_current = 10, dev_power = 100, dev_timestamp = 1\<rparr>,
      \<lparr>dev_device_id = ''M2'', dev_device_type = ''motor'', dev_status = ''running'',
       dev_voltage = 230, dev_current = 40, dev_power = 500, dev_timestamp = 2\<rparr>]) ''motor''
   = [\<lparr>agg_device_type = ''motor'', avg_current = 25, max_current = 40,
         avg_power = 300, total_samples = 2\<rparr>]
   \<and> key_diff (device_stats_changelog
     [\<lparr>dev_device_id = ''M1'', dev_device_type = ''motor'', dev_status = ''running'',
       dev_voltage = 230, dev_current = 10, dev_power = 100, dev_timestamp = 1\<rparr>,
      \<lparr>dev_device_id = ''M2'', dev_device_type = ''motor'', dev_status = ''running'',
       dev_voltage = 230, dev_current = 40, dev_power = 500, dev_timestamp = 2\<rparr>]) ''motor''
   = 1"
proof -
  let ?m1 = "\<lparr>dev_device_id = ''M1'', dev_device_type = ''motor'', dev_status = ''running'',
       dev_voltage = 230, dev_current = 10, dev_power = 100, dev_timestamp = 1\<rparr>"
  let ?m2 = "\<lparr>dev_device_id = ''M2'', dev_device_type = ''motor'', dev_status = ''running'',
       dev_voltage = 230, dev_current = 40, dev_power = 500, dev_timestamp = 2\<rparr>"
  let ?a1 = "\<lparr>agg_device_type = ''motor'', avg_current = 10, max_current = 10,
         avg_power = 100, total_samples = 1\<rparr>"
  let ?a2 = "\<lparr>agg_device_type = ''motor'', avg_current = 25, max_current = 40,
         avg_power = 300, total_samples = 2\<rparr>"
  have s0: "compute_statistics [] ''motor'' = None"
    by (simp add: stats_eval)
  have s1: "compute_statistics [?m1] ''motor'' = Some ?a1"
    by (simp add: stats_eval)
  have s2: "compute_statistics [?m1, ?m2] ''motor'' = Some ?a2"
    by (simp add: stats_eval)
  have c0: "device_stats_changelog [] = []"
    by (simp add: device_stats_changelog_def ingest_all_def)
  have c1: "device_stats_changelog [?m1] = [(?a1, 1)]"
    using device_stats_one_live_row_per_type [of "[]" "''motor''" ?m1,
        THEN conjunct2, THEN conjunct2, THEN conjunct2, THEN conjunct1]
    by (simp add: s0 s1 c0)
  have c2: "device_stats_changelog [?m1, ?m2] = [(?a1, 1), (?a1, - 1), (?a2, 1)]"
    using device_stats_one_live_row_per_type [of "[?m1]" "''motor''" ?m2,
        THEN conjunct2, THEN conjunct2, THEN conjunct2, THEN conjunct1]
    by (simp add: s1 s2 c1)
  have live: "live_rows (device_stats_changelog [?m1, ?m2]) ''motor'' = [?a2]"
    using device_stats_one_live_row_per_type [of "[?m1, ?m2]" "''motor''" ?m1, THEN conjunct1]
    by (simp add: s2)
  have kd: "key_diff (device_stats_changelog [?m1, ?m2]) ''motor'' = 1"
    using device_stats_one_live_row_per_type [of "[?m1, ?m2]" "''motor''" ?m1,
        THEN conjunct2, THEN conjunct2, THEN conjunct1]
    by simp
  from c2 live kd show ?thesis by blast
qed

end
